theory Spec2Isabelle
  imports Main
begin

section \<open>Python values shared by the three modules\<close>

text \<open>
  A Python \<open>dict\<close> is an association list in insertion order. \<open>dict_set\<close> is
  \<open>d[k] = v\<close>: an existing key keeps its position and gets the new value, a new key is
  appended. A \<open>dict\<close> built by Python never holds a key twice; where a statement needs
  that of an input it says \<open>distinct (map fst d)\<close>.
\<close>

type_synonym ('k, 'v) dict = "('k \<times> 'v) list"

definition dict_keys :: "('k, 'v) dict \<Rightarrow> 'k set" where
  "dict_keys d = fst ` set d"

fun dict_set :: "'k \<Rightarrow> 'v \<Rightarrow> ('k, 'v) dict \<Rightarrow> ('k, 'v) dict" where
  "dict_set k v [] = [(k, v)]"
| "dict_set k v (p # ps) = (if fst p = k then (k, v) # ps else p # dict_set k v ps)"

text \<open>
  A Python \<open>set\<close> of strings is a duplicate-free list; \<open>list(skills)\<close> enumerates it in
  an order Python does not fix, here the order of insertion.
\<close>

definition set_add :: "'a \<Rightarrow> 'a list \<Rightarrow> 'a list" where
  "set_add x xs = (if x \<in> set xs then xs else xs @ [x])"

text \<open>
  Strings are lists of 8-bit characters; \<open>lower\<close> is \<open>str.lower\<close> on ASCII text: it maps
  \<open>A\<close> to \<open>Z\<close> and leaves every other character as it is, also those that Python, whose
  strings are Unicode, would change. No general statement below depends on what \<open>lower\<close>
  does to a character; only the concrete runs, all in ASCII, evaluate it.
\<close>

definition lower_char :: "char \<Rightarrow> char" where
  "lower_char c =
     (if 65 \<le> (of_char c :: nat) \<and> (of_char c :: nat) \<le> 90
      then char_of ((of_char c :: nat) + 32) else c)"

definition lower :: "string \<Rightarrow> string" where
  "lower s = map lower_char s"

fun startswith :: "string \<Rightarrow> string \<Rightarrow> bool" where
  "startswith s [] = True"
| "startswith [] (p # ps) = False"
| "startswith (c # cs) (p # ps) = (c = p \<and> startswith cs ps)"

text \<open>\<open>str_in p s\<close> is Python's \<open>p in s\<close> on strings.\<close>

fun str_in :: "string \<Rightarrow> string \<Rightarrow> bool" where
  "str_in p [] = (p = [])"
| "str_in p (c # cs) = (startswith (c # cs) p \<or> str_in p cs)"

definition is_space :: "char \<Rightarrow> bool" where
  "is_space c = ((of_char c :: nat) \<in> {9, 10, 11, 12, 13, 28, 29, 30, 31, 32})"

definition strip :: "string \<Rightarrow> string" where
  "strip s = rev (dropWhile is_space (rev (dropWhile is_space s)))"

text \<open>
  \<open>s.replace(old, new)\<close> for a non-empty \<open>old\<close>: occurrences are replaced from the
  left and do not overlap. The counter is the number of characters of the current
  occurrence still to be skipped.
\<close>

fun replace_from :: "string \<Rightarrow> string \<Rightarrow> nat \<Rightarrow> string \<Rightarrow> string" where
  "replace_from old new k [] = []"
| "replace_from old new (Suc k) (c # cs) = replace_from old new k cs"
| "replace_from old new 0 (c # cs) =
     (if startswith (c # cs) old then new @ replace_from old new (length old - 1) cs
      else c # replace_from old new 0 cs)"

definition replace :: "string \<Rightarrow> string \<Rightarrow> string \<Rightarrow> string" where
  "replace old new s = replace_from old new 0 s"

text \<open>
  Exceptions are values. The repository raises at two places; everything raised inside a
  library (PyPDF2, python-docx, file reading, spaCy, the Gemini client, \<open>json.loads\<close>)
  is a \<open>LibraryError\<close> with its message.
\<close>

datatype exn =
    UnsupportedFormat string
  | ExtractionError string exn
  | LibraryError string

section \<open>gemini_service.py\<close>

text \<open>
  The two prompt templates, with the values substituted into them. The model client is a
  collaborator: its answer (\<open>response.text\<close>, or the message of the exception it raises)
  may depend on the prompt and on every call made before, and the history of calls is the
  state threaded through the module.
\<close>

datatype prompt = LearningPathPrompt string int int | TipsPrompt string int

type_synonym history = "prompt list"

type_synonym client = "history \<Rightarrow> prompt \<Rightarrow> string + string"

definition generate_content :: "client \<Rightarrow> prompt \<Rightarrow> history \<Rightarrow> (string + string) \<times> history" where
  "generate_content model p h = (model h p, h @ [p])"

definition fence :: string where
  "fence = replicate 3 (CHR 0x60)"

definition clean_response :: "string \<Rightarrow> string" where
  "clean_response response_text =
     strip (replace fence [] (replace (fence @ ''json'') [] (strip response_text)))"

text \<open>The returned dictionary: \<open>{'success': True, 'data': d}\<close> or \<open>{'success': False, 'error': str(e)}\<close>.\<close>

datatype 'j tagged = Success 'j | Failure string

definition generate_learning_path ::
  "client \<Rightarrow> (string \<Rightarrow> string + 'j) \<Rightarrow> string \<Rightarrow> int \<Rightarrow> int \<Rightarrow> history
     \<Rightarrow> (exn + 'j tagged) \<times> history" where
  "generate_learning_path model json_loads skill current_level target_level h =
     (case generate_content model (LearningPathPrompt skill current_level target_level) h of
        (response, h') \<Rightarrow>
          (case response of
             Inl e \<Rightarrow> (Inr (Failure e), h')
           | Inr response_text \<Rightarrow>
               (case json_loads (clean_response response_text) of
                  Inl e \<Rightarrow> (Inr (Failure e), h')
                | Inr response_data \<Rightarrow> (Inr (Success response_data), h'))))"

definition get_skill_improvement_tips ::
  "client \<Rightarrow> (string \<Rightarrow> string + 'j) \<Rightarrow> string \<Rightarrow> int \<Rightarrow> history
     \<Rightarrow> (exn + 'j tagged) \<times> history" where
  "get_skill_improvement_tips model json_loads skill current_level h =
     (case generate_content model (TipsPrompt skill current_level) h of
        (response, h') \<Rightarrow>
          (case response of
             Inl e \<Rightarrow> (Inr (Failure e), h')
           | Inr response_text \<Rightarrow>
               (case json_loads (clean_response response_text) of
                  Inl e \<Rightarrow> (Inr (Failure e), h')
                | Inr response_data \<Rightarrow> (Inr (Success response_data), h'))))"

record gap_entry =
  required_level :: int
  current_level :: int

record gap_partition =
  missing_skills :: "(string, gap_entry) dict"
  matching_skills :: "(string, gap_entry) dict"
  below_level_skills :: "(string, gap_entry) dict"

record 'j analysis_result =
  gap_analysis :: gap_partition
  learning_paths :: "(string, 'j) dict"

definition empty_partition :: gap_partition where
  "empty_partition = \<lparr>missing_skills = [], matching_skills = [], below_level_skills = []\<rparr>"

text \<open>One round of the loop over \<open>job_requirements.items()\<close>.\<close>

definition classify_skill :: "(string, int) dict \<Rightarrow> gap_partition \<Rightarrow> string \<times> int \<Rightarrow> gap_partition" where
  "classify_skill resume_skills ga item =
     (case item of (skill, req_level) \<Rightarrow>
        (case map_of resume_skills skill of
           None \<Rightarrow>
             ga\<lparr>missing_skills :=
                  dict_set skill \<lparr>required_level = req_level, current_level = 0\<rparr> (missing_skills ga)\<rparr>
         | Some lvl \<Rightarrow>
             if lvl \<ge> req_level
             then ga\<lparr>matching_skills :=
                  dict_set skill \<lparr>required_level = req_level, current_level = lvl\<rparr> (matching_skills ga)\<rparr>
             else ga\<lparr>below_level_skills :=
                  dict_set skill \<lparr>required_level = req_level, current_level = lvl\<rparr> (below_level_skills ga)\<rparr>))"

definition classify :: "(string, int) dict \<Rightarrow> (string, int) dict \<Rightarrow> gap_partition" where
  "classify resume_skills job_requirements =
     foldl (classify_skill resume_skills) empty_partition job_requirements"

text \<open>The loop over \<open>gap_analysis['missing_skills'].items()\<close>.\<close>

fun missing_loop ::
  "client \<Rightarrow> (string \<Rightarrow> string + 'j) \<Rightarrow> (string, gap_entry) dict \<Rightarrow> (string, 'j) dict \<Rightarrow> history
     \<Rightarrow> (exn + (string, 'j) dict) \<times> history" where
  "missing_loop model json_loads [] paths h = (Inr paths, h)"
| "missing_loop model json_loads ((skill, data) # rest) paths h =
     (case generate_learning_path model json_loads skill 0 (required_level data) h of
        (Inl e, h') \<Rightarrow> (Inl e, h')
      | (Inr (Success d), h') \<Rightarrow> missing_loop model json_loads rest (dict_set skill d paths) h'
      | (Inr (Failure e), h') \<Rightarrow> missing_loop model json_loads rest paths h')"

text \<open>The loop over \<open>gap_analysis['below_level_skills'].items()\<close>.\<close>

fun below_loop ::
  "client \<Rightarrow> (string \<Rightarrow> string + 'j) \<Rightarrow> (string, gap_entry) dict \<Rightarrow> (string, 'j) dict \<Rightarrow> history
     \<Rightarrow> (exn + (string, 'j) dict) \<times> history" where
  "below_loop model json_loads [] paths h = (Inr paths, h)"
| "below_loop model json_loads ((skill, data) # rest) paths h =
     (case generate_learning_path model json_loads skill (current_level data) (required_level data) h of
        (Inl e, h') \<Rightarrow> (Inl e, h')
      | (Inr (Success d), h') \<Rightarrow> below_loop model json_loads rest (dict_set skill d paths) h'
      | (Inr (Failure e), h') \<Rightarrow> below_loop model json_loads rest paths h')"

definition analyze_skill_gap ::
  "client \<Rightarrow> (string \<Rightarrow> string + 'j) \<Rightarrow> (string, int) dict \<Rightarrow> (string, int) dict \<Rightarrow> history
     \<Rightarrow> (exn + 'j analysis_result) \<times> history" where
  "analyze_skill_gap model json_loads resume_skills job_requirements h =
     (let ga = classify resume_skills job_requirements in
      case missing_loop model json_loads (missing_skills ga) [] h of
        (Inl e, h1) \<Rightarrow> (Inl e, h1)
      | (Inr paths1, h1) \<Rightarrow>
          (case below_loop model json_loads (below_level_skills ga) paths1 h1 of
             (Inl e, h2) \<Rightarrow> (Inl e, h2)
           | (Inr paths2, h2) \<Rightarrow> (Inr \<lparr>gap_analysis = ga, learning_paths = paths2\<rparr>, h2)))"

section \<open>main.py\<close>

text \<open>
  \<open>show_upskilling_paths\<close>, as far as it talks to the model: rendering is left out. The
  page reads the stored analysis (\<open>None\<close> before the first analysis) and draws one button
  for every matching skill; a run of the page sees at most one button clicked, given here
  as the skill whose button it was.
\<close>

fun tips_loop ::
  "client \<Rightarrow> (string \<Rightarrow> string + 'j) \<Rightarrow> string option \<Rightarrow> (string, gap_entry) dict \<Rightarrow> history
     \<Rightarrow> history" where
  "tips_loop model json_loads clicked [] h = h"
| "tips_loop model json_loads clicked ((skill, data) # rest) h =
     (if clicked = Some skill
      then tips_loop model json_loads clicked rest
             (snd (get_skill_improvement_tips model json_loads skill (current_level data) h))
      else tips_loop model json_loads clicked rest h)"

definition show_upskilling_paths ::
  "client \<Rightarrow> (string \<Rightarrow> string + 'j) \<Rightarrow> string option \<Rightarrow> 'j analysis_result option \<Rightarrow> history
     \<Rightarrow> history" where
  "show_upskilling_paths model json_loads clicked analysis_results h =
     (case analysis_results of
        None \<Rightarrow> h
      | Some analysis \<Rightarrow>
          if learning_paths analysis = [] then h
          else if matching_skills (gap_analysis analysis) \<noteq> []
          then tips_loop model json_loads clicked (matching_skills (gap_analysis analysis)) h
          else h)"

section \<open>resume_parser.py\<close>

text \<open>
  The loaded ontology file: a dictionary whose entry \<open>skills\<close> maps a category to a
  dictionary from skill name to metadata.
\<close>

type_synonym 'm ontology = "(string, (string, (string, 'm) dict) dict) dict"

definition ontology_skills :: "'m ontology \<Rightarrow> (string, (string, 'm) dict) dict" where
  "ontology_skills skill_ontology =
     (case map_of skill_ontology ''skills'' of None \<Rightarrow> [] | Some d \<Rightarrow> d)"

text \<open>
  What the code reads of a spaCy document: for every token its text, the text of its
  syntactic head, and the dependency label and text of each child of that head.
\<close>

record child =
  child_dep :: string
  child_text :: string

record token =
  token_text :: string
  head_text :: string
  head_children :: "child list"

text \<open>
  The libraries behind \<open>extract_text\<close>: \<open>Path(file_path).suffix\<close> and the three
  readers, each returning the text or the message of the exception raised.
\<close>

record files =
  suffix_of :: "string \<Rightarrow> string"
  extract_text_from_pdf :: "string \<Rightarrow> string + string"
  extract_text_from_docx :: "string \<Rightarrow> string + string"
  extract_text_from_txt :: "string \<Rightarrow> string + string"

definition from_library :: "string + 'a \<Rightarrow> exn + 'a" where
  "from_library r = (case r of Inl e \<Rightarrow> Inl (LibraryError e) | Inr v \<Rightarrow> Inr v)"

definition extract_text :: "files \<Rightarrow> string \<Rightarrow> exn + string" where
  "extract_text fs file_path =
     (let suffix = lower (suffix_of fs file_path) in
      if suffix = ''.pdf'' then from_library (extract_text_from_pdf fs file_path)
      else if suffix = ''.docx'' then from_library (extract_text_from_docx fs file_path)
      else if suffix = ''.txt'' then from_library (extract_text_from_txt fs file_path)
      else Inl (UnsupportedFormat suffix))"

text \<open>The loop over the categories and skill names of the ontology.\<close>

definition ontology_scan :: "'m ontology \<Rightarrow> string \<Rightarrow> string list \<Rightarrow> string list" where
  "ontology_scan skill_ontology text skills =
     foldl (\<lambda>acc (category, skills_data).
              foldl (\<lambda>acc2 skill. if str_in (lower skill) (lower text) then set_add skill acc2 else acc2)
                    acc (map fst skills_data))
           skills (ontology_skills skill_ontology)"

text \<open>The loop over the tokens of the document.\<close>

definition pattern_scan :: "token list \<Rightarrow> string list \<Rightarrow> string list" where
  "pattern_scan doc skills =
     foldl (\<lambda>acc token.
              if lower (token_text token) \<in> set [''experience'', ''proficient'', ''skilled'', ''familiar'']
                 \<and> lower (head_text token) \<noteq> ''with''
              then foldl (\<lambda>acc2 child.
                            if child_dep child \<in> set [''dobj'', ''attr'', ''conj'']
                            then set_add (child_text child) acc2 else acc2)
                         acc (head_children token)
              else acc)
           skills doc"

definition extract_skills_with_nlp ::
  "(string \<Rightarrow> string + token list) \<Rightarrow> 'm ontology \<Rightarrow> string \<Rightarrow> exn + string list" where
  "extract_skills_with_nlp nlp skill_ontology text =
     (case from_library (nlp (lower text)) of
        Inl e \<Rightarrow> Inl e
      | Inr doc \<Rightarrow> Inr (pattern_scan doc (ontology_scan skill_ontology text [])))"

definition tier5 :: "string \<Rightarrow> string list" where
  "tier5 skill_lower =
     [''expert in '' @ skill_lower, ''advanced '' @ skill_lower, ''senior '' @ skill_lower,
      ''5+ years of '' @ skill_lower]"

definition tier4 :: "string \<Rightarrow> string list" where
  "tier4 skill_lower =
     [''proficient in '' @ skill_lower, ''strong '' @ skill_lower @ '' skills'',
      ''3-5 years of '' @ skill_lower]"

definition tier3 :: "string \<Rightarrow> string list" where
  "tier3 skill_lower =
     [''experience with '' @ skill_lower, ''working knowledge of '' @ skill_lower,
      ''1-3 years of '' @ skill_lower]"

definition tier2 :: "string \<Rightarrow> string list" where
  "tier2 skill_lower =
     [''familiar with '' @ skill_lower, ''basic '' @ skill_lower @ '' knowledge'',
      ''beginner level '' @ skill_lower]"

definition estimate_proficiency :: "string \<Rightarrow> string \<Rightarrow> int" where
  "estimate_proficiency skill text =
     (let text_lower = lower text; skill_lower = lower skill in
      if list_ex (\<lambda>phrase. str_in phrase text_lower) (tier5 skill_lower) then 5
      else if list_ex (\<lambda>phrase. str_in phrase text_lower) (tier4 skill_lower) then 4
      else if list_ex (\<lambda>phrase. str_in phrase text_lower) (tier3 skill_lower) then 3
      else if list_ex (\<lambda>phrase. str_in phrase text_lower) (tier2 skill_lower) then 2
      else 1)"

definition skill_found :: "'m ontology \<Rightarrow> string \<Rightarrow> bool" where
  "skill_found skill_ontology skill =
     list_ex (\<lambda>(category, skills_data). map_of skills_data skill \<noteq> None)
             (ontology_skills skill_ontology)"

definition parse_resume ::
  "files \<Rightarrow> (string \<Rightarrow> string + token list) \<Rightarrow> 'm ontology \<Rightarrow> string \<Rightarrow> exn + (string, int) dict" where
  "parse_resume fs nlp skill_ontology file_path =
     (case extract_text fs file_path of
        Inl e \<Rightarrow> Inl (ExtractionError file_path e)
      | Inr text \<Rightarrow>
          (case extract_skills_with_nlp nlp skill_ontology text of
             Inl e \<Rightarrow> Inl e
           | Inr skills \<Rightarrow>
               Inr (foldl (\<lambda>skill_levels skill.
                             if skill_found skill_ontology skill
                             then dict_set skill (estimate_proficiency skill text) skill_levels
                             else skill_levels)
                          [] skills)))"

text \<open>
  The spec's table of tiers, for comparison with \<open>estimate_proficiency\<close>: each level with
  its phrases, the skill name substituted.
\<close>

definition spec_tiers :: "string \<Rightarrow> (int \<times> string list) list" where
  "spec_tiers s =
     [(5, [''expert in '' @ s, ''advanced '' @ s, ''senior '' @ s, ''5+ years of '' @ s]),
      (4, [''proficient in '' @ s, ''strong '' @ s @ '' skills'', ''3-5 years of '' @ s]),
      (3, [''experience with '' @ s, ''working knowledge of '' @ s, ''1-3 years of '' @ s]),
      (2, [''familiar with '' @ s, ''basic '' @ s @ '' knowledge'', ''beginner level '' @ s])]"

definition tier_present :: "string \<Rightarrow> string \<Rightarrow> int \<Rightarrow> bool" where
  "tier_present skill text lvl =
     (\<exists>phrases. (lvl, phrases) \<in> set (spec_tiers (lower skill))
                \<and> (\<exists>phrase \<in> set phrases. str_in phrase (lower text)))"

definition ontology_keys :: "'m ontology \<Rightarrow> string set" where
  "ontology_keys skill_ontology =
     (\<Union>(category, skills_data) \<in> set (ontology_skills skill_ontology). dict_keys skills_data)"

section \<open>The sequence of requests\<close>

text \<open>
  The two loops of \<open>analyze_skill_gap\<close> differ only in the arguments they pass, so their
  properties are proved once, for a loop over the list of requests
  \<open>(skill, current_level, target_level)\<close>.
\<close>

fun request_loop ::
  "client \<Rightarrow> (string \<Rightarrow> string + 'j) \<Rightarrow> (string \<times> int \<times> int) list \<Rightarrow> (string, 'j) dict \<Rightarrow> history
     \<Rightarrow> (exn + (string, 'j) dict) \<times> history" where
  "request_loop model json_loads [] paths h = (Inr paths, h)"
| "request_loop model json_loads ((skill, cur, tgt) # rest) paths h =
     (case generate_learning_path model json_loads skill cur tgt h of
        (Inl e, h') \<Rightarrow> (Inl e, h')
      | (Inr (Success d), h') \<Rightarrow> request_loop model json_loads rest (dict_set skill d paths) h'
      | (Inr (Failure e), h') \<Rightarrow> request_loop model json_loads rest paths h')"

definition missing_requests :: "(string, gap_entry) dict \<Rightarrow> (string \<times> int \<times> int) list" where
  "missing_requests xs = map (\<lambda>(skill, data). (skill, 0, required_level data)) xs"

definition below_requests :: "(string, gap_entry) dict \<Rightarrow> (string \<times> int \<times> int) list" where
  "below_requests xs = map (\<lambda>(skill, data). (skill, current_level data, required_level data)) xs"

definition requests :: "gap_partition \<Rightarrow> (string \<times> int \<times> int) list" where
  "requests ga = missing_requests (missing_skills ga) @ below_requests (below_level_skills ga)"

definition prompt_of :: "string \<times> int \<times> int \<Rightarrow> prompt" where
  "prompt_of q = (case q of (skill, cur, tgt) \<Rightarrow> LearningPathPrompt skill cur tgt)"

fun prompt_skill :: "prompt \<Rightarrow> string" where
  "prompt_skill (LearningPathPrompt skill cur tgt) = skill"
| "prompt_skill (TipsPrompt skill cur) = skill"

text \<open>How often a skill is named in a list of calls.\<close>

definition calls_for :: "string \<Rightarrow> history \<Rightarrow> nat" where
  "calls_for skill calls = length (filter (\<lambda>p. prompt_skill p = skill) calls)"

section \<open>Stand-ins for the collaborators\<close>

text \<open>
  Fixed models and parsers for the concrete runs: a model whose every call raises, a model
  that always answers the same text, a parser that accepts every text and one that
  rejects every text.
\<close>

definition failing_client :: "string \<Rightarrow> client" where
  "failing_client msg h p = Inl msg"

definition canned_client :: "string \<Rightarrow> client" where
  "canned_client answer h p = Inr answer"

definition json_accept :: "string \<Rightarrow> string + unit" where
  "json_accept t = Inr ()"

definition json_reject :: "string \<Rightarrow> string + unit" where
  "json_reject t = Inl ''Expecting value''"

text \<open>
  A file system in which every path has the given suffix and the text reader returns the
  given content, a tagger that finds no tokens, the parse of the sentence
  \<open>experience includes python\<close> (the verb heads the other two words, \<open>python\<close> is its
  direct object), and two small ontologies.
\<close>

definition sample_files :: "string \<Rightarrow> string \<Rightarrow> files" where
  "sample_files suffix content =
     \<lparr>suffix_of = (\<lambda>p. suffix),
      extract_text_from_pdf = (\<lambda>p. Inl ''EOF marker not found''),
      extract_text_from_docx = (\<lambda>p. Inl ''File is not a zip file''),
      extract_text_from_txt = (\<lambda>p. Inr content)\<rparr>"

definition no_tokens :: "string \<Rightarrow> string + token list" where
  "no_tokens t = Inr []"

definition includes_children :: "child list" where
  "includes_children =
     [\<lparr>child_dep = ''nsubj'', child_text = ''experience''\<rparr>,
      \<lparr>child_dep = ''dobj'', child_text = ''python''\<rparr>]"

definition sample_parse :: "string \<Rightarrow> string + token list" where
  "sample_parse t =
     Inr [\<lparr>token_text = ''experience'', head_text = ''includes'', head_children = includes_children\<rparr>,
          \<lparr>token_text = ''includes'', head_text = ''includes'', head_children = includes_children\<rparr>,
          \<lparr>token_text = ''python'', head_text = ''includes'', head_children = includes_children\<rparr>]"

definition sample_ontology :: "unit ontology" where
  "sample_ontology =
     [(''skills'', [(''programming'', [(''Python'', ()), (''SQL'', ())]),
                   (''data'', [(''Machine Learning'', ()), (''Data Analysis'', ())])])]"

definition blank_ontology :: "unit ontology" where
  "blank_ontology = [(''skills'', [(''misc'', [([], ())])])]"

section \<open>Dictionaries\<close>

lemma dict_keys_set: "dict_keys (dict_set k v d) = insert k (dict_keys d)"
  by (induction d) (auto simp: dict_keys_def)

lemma map_of_dict_set: "map_of (dict_set k v d) = (map_of d)(k \<mapsto> v)"
  by (induction d) (auto simp: fun_eq_iff)

lemma distinct_dict_set: "distinct (map fst d) \<Longrightarrow> distinct (map fst (dict_set k v d))"
  by (induction d) (auto simp: dict_keys_set[unfolded dict_keys_def])

lemma dict_keys_dom: "dict_keys d = dom (map_of d)"
  by (simp add: dict_keys_def dom_map_of_conv_image_fst)

section \<open>The gap classification\<close>

lemma classify_skill_missing:
  "map_of (missing_skills (classify_skill obs g (k, r))) s =
     (if s = k \<and> map_of obs k = None then Some \<lparr>required_level = r, current_level = 0\<rparr>
      else map_of (missing_skills g) s)"
  by (simp add: classify_skill_def map_of_dict_set split: option.splits)

lemma classify_skill_matching:
  "map_of (matching_skills (classify_skill obs g (k, r))) s =
     (case map_of obs k of
        Some l \<Rightarrow> if s = k \<and> r \<le> l then Some \<lparr>required_level = r, current_level = l\<rparr>
                  else map_of (matching_skills g) s
      | None \<Rightarrow> map_of (matching_skills g) s)"
  by (simp add: classify_skill_def map_of_dict_set split: option.splits)

lemma classify_skill_below:
  "map_of (below_level_skills (classify_skill obs g (k, r))) s =
     (case map_of obs k of
        Some l \<Rightarrow> if s = k \<and> l < r then Some \<lparr>required_level = r, current_level = l\<rparr>
                  else map_of (below_level_skills g) s
      | None \<Rightarrow> map_of (below_level_skills g) s)"
  by (simp add: classify_skill_def map_of_dict_set split: option.splits)

lemma fold_missing:
  "distinct (map fst req) \<Longrightarrow>
   map_of (missing_skills (foldl (classify_skill obs) g req)) s =
     (case map_of req s of
        None \<Rightarrow> map_of (missing_skills g) s
      | Some r \<Rightarrow> if map_of obs s = None then Some \<lparr>required_level = r, current_level = 0\<rparr>
                  else map_of (missing_skills g) s)"
proof (induction req arbitrary: g)
  case Nil
  then show ?case by simp
next
  case (Cons p req)
  obtain k r where p: "p = (k, r)" by (cases p)
  from Cons.prems p have nk: "map_of req k = None" and d: "distinct (map fst req)"
    by (auto simp: map_of_eq_None_iff)
  show ?case
    using Cons.IH[OF d, of "classify_skill obs g (k, r)"] nk
    by (auto simp: p classify_skill_missing split: option.splits)
qed

lemma fold_matching:
  "distinct (map fst req) \<Longrightarrow>
   map_of (matching_skills (foldl (classify_skill obs) g req)) s =
     (case map_of req s of
        None \<Rightarrow> map_of (matching_skills g) s
      | Some r \<Rightarrow> (case map_of obs s of
                     Some l \<Rightarrow> if r \<le> l then Some \<lparr>required_level = r, current_level = l\<rparr>
                               else map_of (matching_skills g) s
                   | None \<Rightarrow> map_of (matching_skills g) s))"
proof (induction req arbitrary: g)
  case Nil
  then show ?case by simp
next
  case (Cons p req)
  obtain k r where p: "p = (k, r)" by (cases p)
  from Cons.prems p have nk: "map_of req k = None" and d: "distinct (map fst req)"
    by (auto simp: map_of_eq_None_iff)
  show ?case
    using Cons.IH[OF d, of "classify_skill obs g (k, r)"] nk
    by (auto simp: p classify_skill_matching split: option.splits)
qed

lemma fold_below:
  "distinct (map fst req) \<Longrightarrow>
   map_of (below_level_skills (foldl (classify_skill obs) g req)) s =
     (case map_of req s of
        None \<Rightarrow> map_of (below_level_skills g) s
      | Some r \<Rightarrow> (case map_of obs s of
                     Some l \<Rightarrow> if l < r then Some \<lparr>required_level = r, current_level = l\<rparr>
                               else map_of (below_level_skills g) s
                   | None \<Rightarrow> map_of (below_level_skills g) s))"
proof (induction req arbitrary: g)
  case Nil
  then show ?case by simp
next
  case (Cons p req)
  obtain k r where p: "p = (k, r)" by (cases p)
  from Cons.prems p have nk: "map_of req k = None" and d: "distinct (map fst req)"
    by (auto simp: map_of_eq_None_iff)
  show ?case
    using Cons.IH[OF d, of "classify_skill obs g (k, r)"] nk
    by (auto simp: p classify_skill_below split: option.splits)
qed

lemma classify_missing:
  "distinct (map fst req) \<Longrightarrow>
   map_of (missing_skills (classify obs req)) s =
     (case map_of req s of None \<Rightarrow> None
      | Some r \<Rightarrow> if map_of obs s = None then Some \<lparr>required_level = r, current_level = 0\<rparr> else None)"
  by (auto simp add: classify_def fold_missing empty_partition_def split: option.splits)

lemma classify_matching:
  "distinct (map fst req) \<Longrightarrow>
   map_of (matching_skills (classify obs req)) s =
     (case map_of req s of None \<Rightarrow> None
      | Some r \<Rightarrow> (case map_of obs s of
                     Some l \<Rightarrow> if r \<le> l then Some \<lparr>required_level = r, current_level = l\<rparr> else None
                   | None \<Rightarrow> None))"
  by (simp add: classify_def fold_matching empty_partition_def split: option.splits)

lemma classify_below:
  "distinct (map fst req) \<Longrightarrow>
   map_of (below_level_skills (classify obs req)) s =
     (case map_of req s of None \<Rightarrow> None
      | Some r \<Rightarrow> (case map_of obs s of
                     Some l \<Rightarrow> if l < r then Some \<lparr>required_level = r, current_level = l\<rparr> else None
                   | None \<Rightarrow> None))"
  by (simp add: classify_def fold_below empty_partition_def split: option.splits)

section \<open>The calls to the model\<close>

lemma generate_learning_path_returns:
  "\<exists>r. generate_learning_path model jl skill cur tgt h
        = (Inr r, h @ [LearningPathPrompt skill cur tgt])"
  by (simp add: generate_learning_path_def generate_content_def split: sum.splits)

lemma missing_loop_returns:
  "\<exists>paths'. missing_loop model jl xs paths h
     = (Inr paths', h @ map (\<lambda>(skill, data). LearningPathPrompt skill 0 (required_level data)) xs)"
proof (induction xs arbitrary: paths h)
  case Nil
  then show ?case by simp
next
  case (Cons x xs)
  obtain skill data where x: "x = (skill, data)" by (cases x)
  obtain r where r: "generate_learning_path model jl skill 0 (required_level data) h
        = (Inr r, h @ [LearningPathPrompt skill 0 (required_level data)])"
    using generate_learning_path_returns by blast
  show ?case
  proof (cases r)
    case (Success d)
    then show ?thesis
      using Cons.IH[of "dict_set skill d paths" "h @ [LearningPathPrompt skill 0 (required_level data)]"] r x
      by simp
  next
    case (Failure e)
    then show ?thesis
      using Cons.IH[of paths "h @ [LearningPathPrompt skill 0 (required_level data)]"] r x
      by simp
  qed
qed

lemma below_loop_returns:
  "\<exists>paths'. below_loop model jl xs paths h
     = (Inr paths', h @ map (\<lambda>(skill, data). LearningPathPrompt skill (current_level data) (required_level data)) xs)"
proof (induction xs arbitrary: paths h)
  case Nil
  then show ?case by simp
next
  case (Cons x xs)
  obtain skill data where x: "x = (skill, data)" by (cases x)
  obtain r where r: "generate_learning_path model jl skill (current_level data) (required_level data) h
        = (Inr r, h @ [LearningPathPrompt skill (current_level data) (required_level data)])"
    using generate_learning_path_returns by blast
  show ?case
  proof (cases r)
    case (Success d)
    then show ?thesis
      using Cons.IH[of "dict_set skill d paths" "h @ [LearningPathPrompt skill (current_level data) (required_level data)]"] r x
      by simp
  next
    case (Failure e)
    then show ?thesis
      using Cons.IH[of paths "h @ [LearningPathPrompt skill (current_level data) (required_level data)]"] r x
      by simp
  qed
qed

lemma analyze_skill_gap_returns:
  "\<exists>paths. analyze_skill_gap model jl obs req h =
     (Inr \<lparr>gap_analysis = classify obs req, learning_paths = paths\<rparr>,
      h @ map (\<lambda>(skill, data). LearningPathPrompt skill 0 (required_level data))
              (missing_skills (classify obs req))
        @ map (\<lambda>(skill, data). LearningPathPrompt skill (current_level data) (required_level data))
              (below_level_skills (classify obs req)))"
proof -
  let ?g = "classify obs req"
  obtain p1 where p1: "missing_loop model jl (missing_skills ?g) [] h
     = (Inr p1, h @ map (\<lambda>(skill, data). LearningPathPrompt skill 0 (required_level data)) (missing_skills ?g))"
    using missing_loop_returns by blast
  obtain p2 where p2: "below_loop model jl (below_level_skills ?g) p1
        (h @ map (\<lambda>(skill, data). LearningPathPrompt skill 0 (required_level data)) (missing_skills ?g))
     = (Inr p2, (h @ map (\<lambda>(skill, data). LearningPathPrompt skill 0 (required_level data)) (missing_skills ?g))
          @ map (\<lambda>(skill, data). LearningPathPrompt skill (current_level data) (required_level data)) (below_level_skills ?g))"
    using below_loop_returns by blast
  show ?thesis
    by (simp add: analyze_skill_gap_def Let_def p1 p2)
qed


section \<open>The partitions\<close>

lemma keys_missing:
  "distinct (map fst req) \<Longrightarrow>
   dict_keys (missing_skills (classify obs req))
     = {s. \<exists>r. map_of req s = Some r \<and> map_of obs s = None}"
  by (auto simp: dict_keys_dom classify_missing dom_def simp del: map_of_eq_Some_iff split: option.splits if_splits)

lemma keys_matching:
  "distinct (map fst req) \<Longrightarrow>
   dict_keys (matching_skills (classify obs req))
     = {s. \<exists>r l. map_of req s = Some r \<and> map_of obs s = Some l \<and> r \<le> l}"
  by (auto simp: dict_keys_dom classify_matching dom_def simp del: map_of_eq_Some_iff split: option.splits if_splits)

lemma keys_below:
  "distinct (map fst req) \<Longrightarrow>
   dict_keys (below_level_skills (classify obs req))
     = {s. \<exists>r l. map_of req s = Some r \<and> map_of obs s = Some l \<and> l < r}"
  by (auto simp: dict_keys_dom classify_below dom_def simp del: map_of_eq_Some_iff split: option.splits if_splits)

lemma keys_required: "dict_keys req = {s. \<exists>r. map_of req s = Some r}"
  by (auto simp: dict_keys_dom dom_def)

lemma partition_union:
  assumes "distinct (map fst req)"
  shows "dict_keys (missing_skills (classify obs req)) \<union> dict_keys (matching_skills (classify obs req))
           \<union> dict_keys (below_level_skills (classify obs req)) = dict_keys req"
proof (rule set_eqI)
  fix s
  show "s \<in> dict_keys (missing_skills (classify obs req)) \<union> dict_keys (matching_skills (classify obs req))
           \<union> dict_keys (below_level_skills (classify obs req)) \<longleftrightarrow> s \<in> dict_keys req"
    unfolding keys_missing[OF assms] keys_matching[OF assms] keys_below[OF assms] keys_required[of req]
    by (cases "map_of obs s") (auto simp del: map_of_eq_Some_iff)
qed

lemma partition_disjoint:
  assumes "distinct (map fst req)"
  shows "dict_keys (missing_skills (classify obs req)) \<inter> dict_keys (matching_skills (classify obs req)) = {}"
    and "dict_keys (missing_skills (classify obs req)) \<inter> dict_keys (below_level_skills (classify obs req)) = {}"
    and "dict_keys (matching_skills (classify obs req)) \<inter> dict_keys (below_level_skills (classify obs req)) = {}"
  unfolding keys_missing[OF assms] keys_matching[OF assms] keys_below[OF assms]
  by (auto simp del: map_of_eq_Some_iff)

text \<open>
  Claim C1. For every observed skill map and every required skill map (a dictionary, so
  its keys are distinct), \<open>analyze_skill_gap\<close> returns, and the key sets of the three
  partitions of its gap analysis are pairwise disjoint and together are exactly the keys
  of the required map; a skill of the observed map that is not required is in none of them.
\<close>

theorem gap_partitions_cover_required:
  assumes "distinct (map fst job_requirements)"
  shows "\<exists>a h'. analyze_skill_gap model json_loads resume_skills job_requirements h = (Inr a, h')
     \<and> dict_keys (missing_skills (gap_analysis a)) \<inter> dict_keys (matching_skills (gap_analysis a)) = {}
     \<and> dict_keys (missing_skills (gap_analysis a)) \<inter> dict_keys (below_level_skills (gap_analysis a)) = {}
     \<and> dict_keys (matching_skills (gap_analysis a)) \<inter> dict_keys (below_level_skills (gap_analysis a)) = {}
     \<and> dict_keys (missing_skills (gap_analysis a)) \<union> dict_keys (matching_skills (gap_analysis a))
         \<union> dict_keys (below_level_skills (gap_analysis a)) = dict_keys job_requirements
     \<and> (\<forall>s. s \<in> dict_keys resume_skills \<and> s \<notin> dict_keys job_requirements \<longrightarrow>
            s \<notin> dict_keys (missing_skills (gap_analysis a))
          \<and> s \<notin> dict_keys (matching_skills (gap_analysis a))
          \<and> s \<notin> dict_keys (below_level_skills (gap_analysis a)))"
proof -
  let ?g = "classify resume_skills job_requirements"
  obtain paths h' where run:
    "analyze_skill_gap model json_loads resume_skills job_requirements h
       = (Inr \<lparr>gap_analysis = ?g, learning_paths = paths\<rparr>, h')"
    using analyze_skill_gap_returns by blast
  define a where "a = \<lparr>gap_analysis = ?g, learning_paths = paths\<rparr>"
  have ga: "gap_analysis a = ?g" by (simp add: a_def)
  have run': "analyze_skill_gap model json_loads resume_skills job_requirements h = (Inr a, h')"
    using run by (simp add: a_def)
  note u = partition_union[OF assms, of resume_skills]
  have x: "\<forall>s. s \<in> dict_keys resume_skills \<and> s \<notin> dict_keys job_requirements \<longrightarrow>
            s \<notin> dict_keys (missing_skills ?g) \<and> s \<notin> dict_keys (matching_skills ?g)
          \<and> s \<notin> dict_keys (below_level_skills ?g)"
    using u by blast
  have "dict_keys (missing_skills (gap_analysis a)) \<inter> dict_keys (matching_skills (gap_analysis a)) = {}
     \<and> dict_keys (missing_skills (gap_analysis a)) \<inter> dict_keys (below_level_skills (gap_analysis a)) = {}
     \<and> dict_keys (matching_skills (gap_analysis a)) \<inter> dict_keys (below_level_skills (gap_analysis a)) = {}
     \<and> dict_keys (missing_skills (gap_analysis a)) \<union> dict_keys (matching_skills (gap_analysis a))
         \<union> dict_keys (below_level_skills (gap_analysis a)) = dict_keys job_requirements
     \<and> (\<forall>s. s \<in> dict_keys resume_skills \<and> s \<notin> dict_keys job_requirements \<longrightarrow>
            s \<notin> dict_keys (missing_skills (gap_analysis a))
          \<and> s \<notin> dict_keys (matching_skills (gap_analysis a))
          \<and> s \<notin> dict_keys (below_level_skills (gap_analysis a)))"
    unfolding ga using partition_disjoint[OF assms, of resume_skills] u x by simp
  with run' show ?thesis by blast
qed

text \<open>The scenario of the spec, with an unrequired skill added to the observed map.\<close>

theorem gap_partitions_cover_required_witness:
  "distinct (map fst [(''Python'', 4 :: int), (''Machine Learning'', 3), (''Data Analysis'', 3)])
   \<and> (\<exists>a h'. analyze_skill_gap (failing_client ''unavailable'') json_reject
                [(''Python'', 3), (''Machine Learning'', 2), (''Docker'', 1)]
                [(''Python'', 4), (''Machine Learning'', 3), (''Data Analysis'', 3)] [] = (Inr a, h')
     \<and> dict_keys (missing_skills (gap_analysis a)) \<union> dict_keys (matching_skills (gap_analysis a))
         \<union> dict_keys (below_level_skills (gap_analysis a))
        = {''Python'', ''Machine Learning'', ''Data Analysis''}
     \<and> ''Docker'' \<notin> dict_keys (missing_skills (gap_analysis a))
     \<and> ''Docker'' \<notin> dict_keys (matching_skills (gap_analysis a))
     \<and> ''Docker'' \<notin> dict_keys (below_level_skills (gap_analysis a)))"
proof -
  have d: "distinct (map fst [(''Python'', 4 :: int), (''Machine Learning'', 3), (''Data Analysis'', 3)])"
    by simp
  have k: "dict_keys [(''Python'', 4 :: int), (''Machine Learning'', 3), (''Data Analysis'', 3)]
           = {''Python'', ''Machine Learning'', ''Data Analysis''}"
    by (simp add: dict_keys_def)
  have o: "''Docker'' \<in> dict_keys [(''Python'', 3 :: int), (''Machine Learning'', 2), (''Docker'', 1)]"
    by (simp add: dict_keys_def)
  have n: "''Docker'' \<notin> dict_keys [(''Python'', 4 :: int), (''Machine Learning'', 3), (''Data Analysis'', 3)]"
    unfolding k by simp
  obtain a h' where r: "analyze_skill_gap (failing_client ''unavailable'') json_reject
                [(''Python'', 3), (''Machine Learning'', 2), (''Docker'', 1)]
                [(''Python'', 4), (''Machine Learning'', 3), (''Data Analysis'', 3)] [] = (Inr a, h')"
     and u: "dict_keys (missing_skills (gap_analysis a)) \<union> dict_keys (matching_skills (gap_analysis a))
         \<union> dict_keys (below_level_skills (gap_analysis a))
        = dict_keys [(''Python'', 4 :: int), (''Machine Learning'', 3), (''Data Analysis'', 3)]"
     and x: "\<forall>s. s \<in> dict_keys [(''Python'', 3 :: int), (''Machine Learning'', 2), (''Docker'', 1)]
            \<and> s \<notin> dict_keys [(''Python'', 4 :: int), (''Machine Learning'', 3), (''Data Analysis'', 3)] \<longrightarrow>
            s \<notin> dict_keys (missing_skills (gap_analysis a))
          \<and> s \<notin> dict_keys (matching_skills (gap_analysis a))
          \<and> s \<notin> dict_keys (below_level_skills (gap_analysis a))"
    using gap_partitions_cover_required [OF d,
        of "failing_client ''unavailable''" json_reject
           "[(''Python'', 3), (''Machine Learning'', 2), (''Docker'', 1)]" "[]"]
    by blast
  from x o n have "''Docker'' \<notin> dict_keys (missing_skills (gap_analysis a))
     \<and> ''Docker'' \<notin> dict_keys (matching_skills (gap_analysis a))
     \<and> ''Docker'' \<notin> dict_keys (below_level_skills (gap_analysis a))"
    by blast
  with d r u[unfolded k] show ?thesis by blast
qed

text \<open>
  Claim C2, amended. Skill names are compared character for character, as the dictionary
  lookup of the code does, not ignoring case. With all levels of both maps in 1..5, a
  required skill \<open>s\<close> with required level \<open>r\<close> is placed as follows: when exactly that
  name is no key of the observed map, in \<open>missing_skills\<close> with current level 0 and
  required level \<open>r\<close>; observed under exactly that name at a level \<open>l \<ge> r\<close>, in
  \<open>matching_skills\<close> with current level \<open>l\<close>; observed at a level \<open>l < r\<close>, in
  \<open>below_level_skills\<close> with current level \<open>l\<close>, where the gap \<open>r - l\<close> and \<open>l\<close> are
  positive. In each case it is in neither of the other two partitions.
\<close>

theorem classification_by_level:
  assumes "distinct (map fst job_requirements)"
    and "\<forall>(s, l) \<in> set resume_skills. 1 \<le> l \<and> l \<le> 5"
    and "\<forall>(s, l) \<in> set job_requirements. 1 \<le> l \<and> l \<le> 5"
    and "map_of job_requirements s = Some r"
  shows "\<exists>a h'. analyze_skill_gap model json_loads resume_skills job_requirements h = (Inr a, h')
     \<and> (map_of resume_skills s = None \<longrightarrow>
          map_of (missing_skills (gap_analysis a)) s = Some \<lparr>required_level = r, current_level = 0\<rparr>
          \<and> s \<notin> dict_keys (matching_skills (gap_analysis a))
          \<and> s \<notin> dict_keys (below_level_skills (gap_analysis a)))
     \<and> (\<forall>l. map_of resume_skills s = Some l \<and> l \<ge> r \<longrightarrow>
          map_of (matching_skills (gap_analysis a)) s = Some \<lparr>required_level = r, current_level = l\<rparr>
          \<and> s \<notin> dict_keys (missing_skills (gap_analysis a))
          \<and> s \<notin> dict_keys (below_level_skills (gap_analysis a)))
     \<and> (\<forall>l. map_of resume_skills s = Some l \<and> l < r \<longrightarrow>
          map_of (below_level_skills (gap_analysis a)) s = Some \<lparr>required_level = r, current_level = l\<rparr>
          \<and> s \<notin> dict_keys (missing_skills (gap_analysis a))
          \<and> s \<notin> dict_keys (matching_skills (gap_analysis a))
          \<and> 0 < r - l \<and> 0 < l)"
proof -
  let ?g = "classify resume_skills job_requirements"
  note d = assms(1)
  note km = keys_missing[OF d, of resume_skills]
  note kt = keys_matching[OF d, of resume_skills]
  note kb = keys_below[OF d, of resume_skills]
  obtain paths h' where run:
    "analyze_skill_gap model json_loads resume_skills job_requirements h
       = (Inr \<lparr>gap_analysis = ?g, learning_paths = paths\<rparr>, h')"
    using analyze_skill_gap_returns by blast
  define a where "a = \<lparr>gap_analysis = ?g, learning_paths = paths\<rparr>"
  have ga: "gap_analysis a = ?g" by (simp add: a_def)
  have run': "analyze_skill_gap model json_loads resume_skills job_requirements h = (Inr a, h')"
    using run by (simp add: a_def)
  have pos: "0 < l" if "map_of resume_skills s = Some l" for l
  proof -
    from that have "(s, l) \<in> set resume_skills" by (rule map_of_SomeD)
    with assms(2) show ?thesis by auto
  qed
  have c1: "map_of resume_skills s = None \<longrightarrow>
          map_of (missing_skills (gap_analysis a)) s = Some \<lparr>required_level = r, current_level = 0\<rparr>
          \<and> s \<notin> dict_keys (matching_skills (gap_analysis a))
          \<and> s \<notin> dict_keys (below_level_skills (gap_analysis a))"
    unfolding ga km kt kb using assms(4)
    by (simp add: classify_missing[OF d] del: map_of_eq_Some_iff)
  have c2: "map_of (matching_skills (gap_analysis a)) s = Some \<lparr>required_level = r, current_level = l\<rparr>
          \<and> s \<notin> dict_keys (missing_skills (gap_analysis a))
          \<and> s \<notin> dict_keys (below_level_skills (gap_analysis a))"
    if "map_of resume_skills s = Some l \<and> l \<ge> r" for l
    unfolding ga km kt kb using assms(4) that
    by (simp add: classify_matching[OF d] del: map_of_eq_Some_iff)
  have c3: "map_of (below_level_skills (gap_analysis a)) s = Some \<lparr>required_level = r, current_level = l\<rparr>
          \<and> s \<notin> dict_keys (missing_skills (gap_analysis a))
          \<and> s \<notin> dict_keys (matching_skills (gap_analysis a))
          \<and> 0 < r - l \<and> 0 < l"
    if "map_of resume_skills s = Some l \<and> l < r" for l
    unfolding ga km kt kb using assms(4) that pos[of l]
    by (simp add: classify_below[OF d] del: map_of_eq_Some_iff)
  have c2': "\<forall>l. map_of resume_skills s = Some l \<and> l \<ge> r \<longrightarrow>
          map_of (matching_skills (gap_analysis a)) s = Some \<lparr>required_level = r, current_level = l\<rparr>
          \<and> s \<notin> dict_keys (missing_skills (gap_analysis a))
          \<and> s \<notin> dict_keys (below_level_skills (gap_analysis a))"
    using c2 by (intro allI impI)
  have c3': "\<forall>l. map_of resume_skills s = Some l \<and> l < r \<longrightarrow>
          map_of (below_level_skills (gap_analysis a)) s = Some \<lparr>required_level = r, current_level = l\<rparr>
          \<and> s \<notin> dict_keys (missing_skills (gap_analysis a))
          \<and> s \<notin> dict_keys (matching_skills (gap_analysis a))
          \<and> 0 < r - l \<and> 0 < l"
    using c3 by (intro allI impI)
  show ?thesis
    by (rule exI[of _ a], rule exI[of _ h']) (intro conjI run' c1 c2' c3')
qed

text \<open>
  The scenario of the spec at the skill \<open>Python\<close>: observed at level 3, required at level 4,
  hence below level with gap 1.
\<close>

theorem classification_by_level_witness:
  "distinct (map fst [(''Python'', 4 :: int), (''Machine Learning'', 3), (''Data Analysis'', 3)])
   \<and> list_all (\<lambda>(s, l). 1 \<le> l \<and> l \<le> 5) [(''Python'', 3 :: int), (''Machine Learning'', 2)]
   \<and> list_all (\<lambda>(s, l). 1 \<le> l \<and> l \<le> 5)
         [(''Python'', 4 :: int), (''Machine Learning'', 3), (''Data Analysis'', 3)]
   \<and> map_of [(''Python'', 4 :: int), (''Machine Learning'', 3), (''Data Analysis'', 3)] ''Python'' = Some 4
   \<and> map_of [(''Python'', 3 :: int), (''Machine Learning'', 2)] ''Python'' = Some 3
   \<and> (\<exists>a h'. analyze_skill_gap (failing_client ''unavailable'') json_reject
                [(''Python'', 3), (''Machine Learning'', 2)]
                [(''Python'', 4), (''Machine Learning'', 3), (''Data Analysis'', 3)] [] = (Inr a, h')
        \<and> map_of (below_level_skills (gap_analysis a)) ''Python''
            = Some \<lparr>required_level = 4, current_level = 3\<rparr>
        \<and> ''Python'' \<notin> dict_keys (missing_skills (gap_analysis a))
        \<and> ''Python'' \<notin> dict_keys (matching_skills (gap_analysis a)))"
proof -
  have d: "distinct (map fst [(''Python'', 4 :: int), (''Machine Learning'', 3), (''Data Analysis'', 3)])"
    by simp
  have o: "\<forall>(s, l) \<in> set [(''Python'', 3 :: int), (''Machine Learning'', 2)]. 1 \<le> l \<and> l \<le> 5"
    by simp
  have q: "\<forall>(s, l) \<in> set [(''Python'', 4 :: int), (''Machine Learning'', 3), (''Data Analysis'', 3)]. 1 \<le> l \<and> l \<le> 5"
    by simp
  have r: "map_of [(''Python'', 4 :: int), (''Machine Learning'', 3), (''Data Analysis'', 3)] ''Python'' = Some 4"
    by simp
  have l: "map_of [(''Python'', 3 :: int), (''Machine Learning'', 2)] ''Python'' = Some 3 \<and> (3 :: int) < 4"
    by simp
  from classification_by_level [OF d o q r,
        of "failing_client ''unavailable''" json_reject "[]"] l
  have "\<exists>a h'. analyze_skill_gap (failing_client ''unavailable'') json_reject
                [(''Python'', 3), (''Machine Learning'', 2)]
                [(''Python'', 4), (''Machine Learning'', 3), (''Data Analysis'', 3)] [] = (Inr a, h')
        \<and> map_of (below_level_skills (gap_analysis a)) ''Python''
            = Some \<lparr>required_level = 4, current_level = 3\<rparr>
        \<and> ''Python'' \<notin> dict_keys (missing_skills (gap_analysis a))
        \<and> ''Python'' \<notin> dict_keys (matching_skills (gap_analysis a))"
    by blast
  moreover have "list_all (\<lambda>(s, l). 1 \<le> l \<and> l \<le> 5) [(''Python'', 3 :: int), (''Machine Learning'', 2)]"
    by simp
  moreover have "list_all (\<lambda>(s, l). 1 \<le> l \<and> l \<le> 5)
         [(''Python'', 4 :: int), (''Machine Learning'', 3), (''Data Analysis'', 3)]"
    by simp
  ultimately show ?thesis using d r l by blast
qed

text \<open>
  Claim C2 read with the skill maps of the spec, whose keys are compared ignoring case,
  fails: the observed map has \<open>python\<close> at level 5 and the role requires \<open>Python\<close> at
  level 3. The two names are equal ignoring case, so that reading puts the skill in
  \<open>matching_skills\<close> at current level 5; the lookup of the code finds no key \<open>Python\<close>
  and puts it in \<open>missing_skills\<close> at current level 0, and asks for a learning path
  from level 0.
\<close>

theorem case_variant_key_counterexample:
  "lower ''python'' = lower ''Python''
   \<and> map_of [(''python'', 5 :: int)] ''python'' = Some 5
   \<and> map_of [(''python'', 5 :: int)] ''Python'' = None
   \<and> analyze_skill_gap (failing_client ''unavailable'') json_reject
        [(''python'', 5)] [(''Python'', 3)] []
     = (Inr \<lparr>gap_analysis =
               \<lparr>missing_skills = [(''Python'', \<lparr>required_level = 3, current_level = 0\<rparr>)],
                matching_skills = [],
                below_level_skills = []\<rparr>,
              learning_paths = []\<rparr>,
        [LearningPathPrompt ''Python'' 0 3])"
proof -
  have l: "lower ''python'' = lower ''Python''" by code_simp
  have r: "analyze_skill_gap (failing_client ''unavailable'') json_reject
        [(''python'', 5)] [(''Python'', 3)] []
     = (Inr \<lparr>gap_analysis =
               \<lparr>missing_skills = [(''Python'', \<lparr>required_level = 3, current_level = 0\<rparr>)],
                matching_skills = [],
                below_level_skills = []\<rparr>,
              learning_paths = []\<rparr>,
        [LearningPathPrompt ''Python'' 0 3])"
    by (simp add: analyze_skill_gap_def classify_def classify_skill_def empty_partition_def
          generate_learning_path_def generate_content_def failing_client_def)
  from l r show ?thesis by simp
qed

section \<open>The request loop\<close>

lemma missing_loop_requests:
  "missing_loop model jl xs paths h = request_loop model jl (missing_requests xs) paths h"
  by (induction xs arbitrary: paths h)
     (auto simp: missing_requests_def split: prod.splits sum.splits tagged.splits)

lemma below_loop_requests:
  "below_loop model jl xs paths h = request_loop model jl (below_requests xs) paths h"
  by (induction xs arbitrary: paths h)
     (auto simp: below_requests_def split: prod.splits sum.splits tagged.splits)

lemma request_loop_append:
  "request_loop model jl (xs @ ys) paths h =
     (case request_loop model jl xs paths h of
        (Inl e, h') \<Rightarrow> (Inl e, h')
      | (Inr paths', h') \<Rightarrow> request_loop model jl ys paths' h')"
  by (induction xs arbitrary: paths h)
     (auto split: prod.splits sum.splits tagged.splits)

lemma analyze_skill_gap_requests:
  "analyze_skill_gap model jl obs req h =
     (case request_loop model jl (requests (classify obs req)) [] h of
        (Inl e, h') \<Rightarrow> (Inl e, h')
      | (Inr paths, h') \<Rightarrow> (Inr \<lparr>gap_analysis = classify obs req, learning_paths = paths\<rparr>, h'))"
  by (simp add: analyze_skill_gap_def Let_def requests_def request_loop_append
        missing_loop_requests below_loop_requests split: prod.splits sum.splits)

text \<open>What the loop leaves in the dictionary of learning paths.\<close>

lemma request_loop_result:
  assumes "distinct (map fst qs)"
  shows "\<exists>paths'. request_loop model jl qs paths h = (Inr paths', h @ map prompt_of qs)
     \<and> (\<forall>s. s \<notin> fst ` set qs \<longrightarrow> map_of paths' s = map_of paths s)
     \<and> (\<forall>i < length qs. \<forall>s c t. qs ! i = (s, c, t) \<longrightarrow>
           (case fst (generate_learning_path model jl s c t (h @ map prompt_of (take i qs))) of
              Inr (Success d) \<Rightarrow> map_of paths' s = Some d
            | Inr (Failure e) \<Rightarrow> map_of paths' s = map_of paths s
            | Inl x \<Rightarrow> False))"
  using assms
proof (induction qs arbitrary: paths h)
  case Nil
  then show ?case by simp
next
  case (Cons q qs)
  obtain s0 c0 t0 where q: "q = (s0, c0, t0)" by (cases q)
  from Cons.prems q have d: "distinct (map fst qs)" and fresh: "s0 \<notin> fst ` set qs"
    by auto
  let ?h1 = "h @ [LearningPathPrompt s0 c0 t0]"
  obtain r where r: "generate_learning_path model jl s0 c0 t0 h = (Inr r, ?h1)"
    using generate_learning_path_returns by blast
  define paths1 where "paths1 = (case r of Success d \<Rightarrow> dict_set s0 d paths | Failure e \<Rightarrow> paths)"
  have step: "request_loop model jl (q # qs) paths h = request_loop model jl qs paths1 ?h1"
    by (simp add: q r paths1_def split: tagged.splits)
  obtain paths' where run: "request_loop model jl qs paths1 ?h1 = (Inr paths', ?h1 @ map prompt_of qs)"
    and keep: "\<forall>s. s \<notin> fst ` set qs \<longrightarrow> map_of paths' s = map_of paths1 s"
    and each: "\<forall>i < length qs. \<forall>s c t. qs ! i = (s, c, t) \<longrightarrow>
           (case fst (generate_learning_path model jl s c t (?h1 @ map prompt_of (take i qs))) of
              Inr (Success d) \<Rightarrow> map_of paths' s = Some d
            | Inr (Failure e) \<Rightarrow> map_of paths' s = map_of paths1 s
            | Inl x \<Rightarrow> False)"
    using Cons.IH[OF d, of paths1 ?h1] by blast
  have other: "map_of paths1 s = map_of paths s" if "s \<noteq> s0" for s
    using that by (simp add: paths1_def map_of_dict_set split: tagged.splits)
  have p1: "request_loop model jl (q # qs) paths h = (Inr paths', h @ map prompt_of (q # qs))"
    using step run by (simp add: q prompt_of_def)
  have p2: "\<forall>s. s \<notin> fst ` set (q # qs) \<longrightarrow> map_of paths' s = map_of paths s"
    using keep other by (auto simp: q)
  have p3: "\<forall>i < length (q # qs). \<forall>s c t. (q # qs) ! i = (s, c, t) \<longrightarrow>
           (case fst (generate_learning_path model jl s c t (h @ map prompt_of (take i (q # qs)))) of
              Inr (Success d) \<Rightarrow> map_of paths' s = Some d
            | Inr (Failure e) \<Rightarrow> map_of paths' s = map_of paths s
            | Inl x \<Rightarrow> False)"
  proof (intro allI impI)
    fix i s c t
    assume i: "i < length (q # qs)" and at: "(q # qs) ! i = (s, c, t)"
    show "case fst (generate_learning_path model jl s c t (h @ map prompt_of (take i (q # qs)))) of
              Inr (Success d) \<Rightarrow> map_of paths' s = Some d
            | Inr (Failure e) \<Rightarrow> map_of paths' s = map_of paths s
            | Inl x \<Rightarrow> False"
    proof (cases i)
      case 0
      with at q have eq: "s = s0" "c = c0" "t = t0" by auto
      have "map_of paths' s0 = map_of paths1 s0" using keep fresh by blast
      then show ?thesis
        using 0 r by (auto simp: eq paths1_def map_of_dict_set split: tagged.splits)
    next
      case (Suc j)
      with i at have j: "j < length qs" and atj: "qs ! j = (s, c, t)" by auto
      from j atj have "s \<in> fst ` set qs" by (metis fst_conv image_eqI nth_mem)
      with fresh have ne: "s \<noteq> s0" by blast
      have hh: "h @ map prompt_of (take i (q # qs)) = ?h1 @ map prompt_of (take j qs)"
        by (simp add: Suc q prompt_of_def)
      from each j atj
      have "case fst (generate_learning_path model jl s c t (?h1 @ map prompt_of (take j qs))) of
              Inr (Success d) \<Rightarrow> map_of paths' s = Some d
            | Inr (Failure e) \<Rightarrow> map_of paths' s = map_of paths1 s
            | Inl x \<Rightarrow> False"
        by blast
      then show ?thesis
        unfolding hh other[OF ne] .
    qed
  qed
  from p1 p2 p3 show ?case by blast
qed

section \<open>Counting the calls\<close>

lemma classify_skill_distinct:
  assumes "distinct (map fst (missing_skills g))" "distinct (map fst (matching_skills g))"
    "distinct (map fst (below_level_skills g))"
  shows "distinct (map fst (missing_skills (classify_skill obs g item)))
       \<and> distinct (map fst (matching_skills (classify_skill obs g item)))
       \<and> distinct (map fst (below_level_skills (classify_skill obs g item)))"
  using assms
  by (cases item) (auto simp: classify_skill_def distinct_dict_set split: option.splits)

lemma fold_classify_distinct:
  "distinct (map fst (missing_skills g)) \<Longrightarrow> distinct (map fst (matching_skills g)) \<Longrightarrow>
   distinct (map fst (below_level_skills g)) \<Longrightarrow>
   distinct (map fst (missing_skills (foldl (classify_skill obs) g req)))
   \<and> distinct (map fst (matching_skills (foldl (classify_skill obs) g req)))
   \<and> distinct (map fst (below_level_skills (foldl (classify_skill obs) g req)))"
proof (induction req arbitrary: g)
  case Nil
  then show ?case by simp
next
  case (Cons item req)
  from classify_skill_distinct[OF Cons.prems, of obs item] Cons.IH[of "classify_skill obs g item"]
  show ?case by simp
qed

lemma classify_distinct:
  "distinct (map fst (missing_skills (classify obs req)))"
  "distinct (map fst (matching_skills (classify obs req)))"
  "distinct (map fst (below_level_skills (classify obs req)))"
  using fold_classify_distinct[of empty_partition obs req]
  by (simp_all add: classify_def empty_partition_def)

lemma requests_keys:
  "map fst (requests g) = map fst (missing_skills g) @ map fst (below_level_skills g)"
  by (simp add: requests_def missing_requests_def below_requests_def split_def comp_def)

lemma requests_distinct:
  assumes "distinct (map fst req)"
  shows "distinct (map fst (requests (classify obs req)))"
  using partition_disjoint(2)[OF assms, of obs] classify_distinct(1,3)[of obs req]
  by (simp add: requests_keys dict_keys_def)

lemma requests_prompts:
  "map prompt_of (requests g) =
     map (\<lambda>(skill, data). LearningPathPrompt skill 0 (required_level data)) (missing_skills g)
     @ map (\<lambda>(skill, data). LearningPathPrompt skill (current_level data) (required_level data))
           (below_level_skills g)"
  by (simp add: requests_def missing_requests_def below_requests_def prompt_of_def split_def comp_def)

lemma prompt_skill_of: "prompt_skill (prompt_of q) = fst q"
  by (cases q) (simp add: prompt_of_def)

lemma calls_for_keys:
  "calls_for s (map prompt_of qs) = length (filter (\<lambda>k. k = s) (map fst qs))"
  by (induction qs) (simp_all add: calls_for_def prompt_skill_of)

lemma distinct_count: "distinct ks \<Longrightarrow> length (filter (\<lambda>k. k = s) ks) = (if s \<in> set ks then 1 else 0)"
  by (induction ks) auto

lemma calls_for_requests:
  "distinct (map fst qs) \<Longrightarrow>
   calls_for s (map prompt_of qs) = (if s \<in> fst ` set qs then 1 else 0)"
  unfolding calls_for_keys using distinct_count[of "map fst qs" s] by simp

lemma get_skill_improvement_tips_history:
  "snd (get_skill_improvement_tips model jl skill cur h) = h @ [TipsPrompt skill cur]"
  by (simp add: get_skill_improvement_tips_def generate_content_def split: sum.splits)

lemma tips_loop_calls:
  "\<exists>tips. tips_loop model jl clicked xs h = h @ tips
     \<and> (\<forall>p \<in> set tips. \<exists>s e. p = TipsPrompt s (current_level e) \<and> clicked = Some s \<and> (s, e) \<in> set xs)"
proof (induction xs arbitrary: h)
  case Nil
  then show ?case by simp
next
  case (Cons x xs)
  obtain skill data where x: "x = (skill, data)" by (cases x)
  show ?case
  proof (cases "clicked = Some skill")
    case True
    obtain tips where t: "tips_loop model jl clicked xs (h @ [TipsPrompt skill (current_level data)])
          = (h @ [TipsPrompt skill (current_level data)]) @ tips"
      and a: "\<forall>p \<in> set tips. \<exists>s e. p = TipsPrompt s (current_level e) \<and> clicked = Some s \<and> (s, e) \<in> set xs"
      using Cons.IH by blast
    have "tips_loop model jl clicked (x # xs) h = h @ (TipsPrompt skill (current_level data) # tips)"
      using True t by (simp add: x get_skill_improvement_tips_history)
    moreover have "\<forall>p \<in> set (TipsPrompt skill (current_level data) # tips).
        \<exists>s e. p = TipsPrompt s (current_level e) \<and> clicked = Some s \<and> (s, e) \<in> set (x # xs)"
    proof
      fix p assume "p \<in> set (TipsPrompt skill (current_level data) # tips)"
      then consider "p = TipsPrompt skill (current_level data)" | "p \<in> set tips" by auto
      then show "\<exists>s e. p = TipsPrompt s (current_level e) \<and> clicked = Some s \<and> (s, e) \<in> set (x # xs)"
      proof cases
        case 1
        with True x show ?thesis by auto
      next
        case 2
        with a obtain s e where "p = TipsPrompt s (current_level e)" "clicked = Some s" "(s, e) \<in> set xs"
          by blast
        then show ?thesis by auto
      qed
    qed
    ultimately show ?thesis by blast
  next
    case False
    obtain tips where t: "tips_loop model jl clicked xs h = h @ tips"
      and a: "\<forall>p \<in> set tips. \<exists>s e. p = TipsPrompt s (current_level e) \<and> clicked = Some s \<and> (s, e) \<in> set xs"
      using Cons.IH by blast
    have "tips_loop model jl clicked (x # xs) h = h @ tips"
      using False t by (simp add: x)
    moreover have "\<forall>p \<in> set tips.
        \<exists>s e. p = TipsPrompt s (current_level e) \<and> clicked = Some s \<and> (s, e) \<in> set (x # xs)"
    proof
      fix p assume "p \<in> set tips"
      with a obtain s e where "p = TipsPrompt s (current_level e)" "clicked = Some s" "(s, e) \<in> set xs"
        by blast
      then show "\<exists>s e. p = TipsPrompt s (current_level e) \<and> clicked = Some s \<and> (s, e) \<in> set (x # xs)"
        by auto
    qed
    ultimately show ?thesis by blast
  qed
qed

lemma show_upskilling_paths_calls:
  "\<exists>tips. show_upskilling_paths model jl clicked (Some a) h = h @ tips
     \<and> (\<forall>p \<in> set tips. \<exists>s e. p = TipsPrompt s (current_level e) \<and> clicked = Some s
            \<and> (s, e) \<in> set (matching_skills (gap_analysis a)))"
proof (cases "learning_paths a = [] \<or> matching_skills (gap_analysis a) = []")
  case True
  then have "show_upskilling_paths model jl clicked (Some a) h = h @ []"
    by (auto simp: show_upskilling_paths_def)
  then show ?thesis by (metis empty_iff list.set(1))
next
  case False
  then have "show_upskilling_paths model jl clicked (Some a) h
      = tips_loop model jl clicked (matching_skills (gap_analysis a)) h"
    by (simp add: show_upskilling_paths_def)
  then show ?thesis using tips_loop_calls by metis
qed

text \<open>
  Claim C6. One run of \<open>analyze_skill_gap\<close> adds to the history of calls exactly the
  learning-path requests of the missing skills, in their order, followed by those of the
  below-level skills, in their order: every missing and every below-level skill is asked
  for once, no matching skill is asked for. The page \<open>show_upskilling_paths\<close> calls the
  model only with a tips request, for a matching skill whose button was clicked.
\<close>

theorem calls_in_order:
  assumes "distinct (map fst job_requirements)"
  shows "\<exists>a calls. analyze_skill_gap model json_loads resume_skills job_requirements h = (Inr a, h @ calls)
     \<and> calls = map (\<lambda>(skill, data). LearningPathPrompt skill 0 (required_level data))
                   (missing_skills (gap_analysis a))
               @ map (\<lambda>(skill, data). LearningPathPrompt skill (current_level data) (required_level data))
                   (below_level_skills (gap_analysis a))
     \<and> (\<forall>s \<in> dict_keys (missing_skills (gap_analysis a)). calls_for s calls = 1)
     \<and> (\<forall>s \<in> dict_keys (below_level_skills (gap_analysis a)). calls_for s calls = 1)
     \<and> (\<forall>s \<in> dict_keys (matching_skills (gap_analysis a)). calls_for s calls = 0)
     \<and> (\<forall>clicked h0. \<exists>tips. show_upskilling_paths model json_loads clicked (Some a) h0 = h0 @ tips
            \<and> (\<forall>p \<in> set tips. \<exists>s e. p = TipsPrompt s (current_level e) \<and> clicked = Some s
                  \<and> (s, e) \<in> set (matching_skills (gap_analysis a))))"
proof -
  let ?g = "classify resume_skills job_requirements"
  let ?calls = "map prompt_of (requests ?g)"
  note dq = requests_distinct[OF assms, of resume_skills]
  obtain paths where loop: "request_loop model json_loads (requests ?g) [] h = (Inr paths, h @ ?calls)"
    using request_loop_result[OF dq, of model json_loads "[]" h] by blast
  define a where "a = \<lparr>gap_analysis = ?g, learning_paths = paths\<rparr>"
  have ga: "gap_analysis a = ?g" by (simp add: a_def)
  have run: "analyze_skill_gap model json_loads resume_skills job_requirements h = (Inr a, h @ ?calls)"
    by (simp add: analyze_skill_gap_requests loop a_def)
  have shape: "?calls = map (\<lambda>(skill, data). LearningPathPrompt skill 0 (required_level data))
                   (missing_skills (gap_analysis a))
               @ map (\<lambda>(skill, data). LearningPathPrompt skill (current_level data) (required_level data))
                   (below_level_skills (gap_analysis a))"
    unfolding ga by (rule requests_prompts)
  have keys: "fst ` set (requests ?g) = dict_keys (missing_skills ?g) \<union> dict_keys (below_level_skills ?g)"
    using requests_keys[of ?g] by (metis dict_keys_def set_append set_map)
  have count: "calls_for s ?calls
      = (if s \<in> dict_keys (missing_skills ?g) \<union> dict_keys (below_level_skills ?g) then 1 else 0)" for s
    using calls_for_requests[OF dq, of s] unfolding keys .
  have m: "\<forall>s \<in> dict_keys (missing_skills (gap_analysis a)). calls_for s ?calls = 1"
    unfolding ga by (simp add: count)
  have b: "\<forall>s \<in> dict_keys (below_level_skills (gap_analysis a)). calls_for s ?calls = 1"
    unfolding ga by (simp add: count)
  have t: "\<forall>s \<in> dict_keys (matching_skills (gap_analysis a)). calls_for s ?calls = 0"
    unfolding ga using partition_disjoint(1,3)[OF assms, of resume_skills] by (auto simp: count)
  have u: "\<forall>clicked h0. \<exists>tips. show_upskilling_paths model json_loads clicked (Some a) h0 = h0 @ tips
            \<and> (\<forall>p \<in> set tips. \<exists>s e. p = TipsPrompt s (current_level e) \<and> clicked = Some s
                  \<and> (s, e) \<in> set (matching_skills (gap_analysis a)))"
    using show_upskilling_paths_calls by blast
  show ?thesis
    by (rule exI[of _ a], rule exI[of _ ?calls]) (intro conjI run shape m b t u)
qed

lemma scenario_run:
  "analyze_skill_gap (canned_client ''{}'') json_accept
      [(''Python'', 3), (''Machine Learning'', 2), (''SQL'', 4)]
      [(''Python'', 4), (''Machine Learning'', 3), (''Data Analysis'', 3), (''SQL'', 2)] []
   = (Inr \<lparr>gap_analysis =
             \<lparr>missing_skills = [(''Data Analysis'', \<lparr>required_level = 3, current_level = 0\<rparr>)],
              matching_skills = [(''SQL'', \<lparr>required_level = 2, current_level = 4\<rparr>)],
              below_level_skills = [(''Python'', \<lparr>required_level = 4, current_level = 3\<rparr>),
                                    (''Machine Learning'', \<lparr>required_level = 3, current_level = 2\<rparr>)]\<rparr>,
            learning_paths = [(''Data Analysis'', ()), (''Python'', ()), (''Machine Learning'', ())]\<rparr>,
      [LearningPathPrompt ''Data Analysis'' 0 3, LearningPathPrompt ''Python'' 3 4,
       LearningPathPrompt ''Machine Learning'' 2 3])"
  by (simp add: analyze_skill_gap_def classify_def classify_skill_def empty_partition_def
        generate_learning_path_def generate_content_def canned_client_def json_accept_def)

text \<open>
  A run with one missing, two below-level and one matching skill, and a click on the
  button of the matching skill.
\<close>

theorem calls_in_order_witness:
  "distinct (map fst [(''Python'', 4 :: int), (''Machine Learning'', 3), (''Data Analysis'', 3), (''SQL'', 2)])
   \<and> (\<exists>a calls. analyze_skill_gap (canned_client ''{}'') json_accept
          [(''Python'', 3), (''Machine Learning'', 2), (''SQL'', 4)]
          [(''Python'', 4), (''Machine Learning'', 3), (''Data Analysis'', 3), (''SQL'', 2)] [] = (Inr a, calls)
        \<and> calls = [LearningPathPrompt ''Data Analysis'' 0 3, LearningPathPrompt ''Python'' 3 4,
                    LearningPathPrompt ''Machine Learning'' 2 3]
        \<and> ''Data Analysis'' \<in> dict_keys (missing_skills (gap_analysis a))
        \<and> calls_for ''Data Analysis'' calls = 1
        \<and> ''Python'' \<in> dict_keys (below_level_skills (gap_analysis a))
        \<and> calls_for ''Python'' calls = 1
        \<and> ''SQL'' \<in> dict_keys (matching_skills (gap_analysis a))
        \<and> calls_for ''SQL'' calls = 0
        \<and> show_upskilling_paths (canned_client ''{}'') json_accept (Some ''SQL'') (Some a) []
            = [TipsPrompt ''SQL'' 4])"
proof -
  let ?req = "[(''Python'', 4 :: int), (''Machine Learning'', 3), (''Data Analysis'', 3), (''SQL'', 2)]"
  let ?obs = "[(''Python'', 3 :: int), (''Machine Learning'', 2), (''SQL'', 4)]"
  let ?model = "canned_client ''{}''"
  let ?jl = "json_accept"
  have d: "distinct (map fst ?req)" by simp
  obtain a calls where run: "analyze_skill_gap ?model ?jl ?obs ?req [] = (Inr a, [] @ calls)"
    and m: "\<forall>s \<in> dict_keys (missing_skills (gap_analysis a)). calls_for s calls = 1"
    and b: "\<forall>s \<in> dict_keys (below_level_skills (gap_analysis a)). calls_for s calls = 1"
    and t: "\<forall>s \<in> dict_keys (matching_skills (gap_analysis a)). calls_for s calls = 0"
    using calls_in_order[OF d, of ?model ?jl ?obs "[]"] by blast
  from run have a: "a = \<lparr>gap_analysis =
             \<lparr>missing_skills = [(''Data Analysis'', \<lparr>required_level = 3, current_level = 0\<rparr>)],
              matching_skills = [(''SQL'', \<lparr>required_level = 2, current_level = 4\<rparr>)],
              below_level_skills = [(''Python'', \<lparr>required_level = 4, current_level = 3\<rparr>),
                                    (''Machine Learning'', \<lparr>required_level = 3, current_level = 2\<rparr>)]\<rparr>,
            learning_paths = [(''Data Analysis'', ()), (''Python'', ()), (''Machine Learning'', ())]\<rparr>"
    and c: "calls = [LearningPathPrompt ''Data Analysis'' 0 3, LearningPathPrompt ''Python'' 3 4,
       LearningPathPrompt ''Machine Learning'' 2 3]"
    unfolding scenario_run by simp_all
  have k1: "''Data Analysis'' \<in> dict_keys (missing_skills (gap_analysis a))"
    and k2: "''Python'' \<in> dict_keys (below_level_skills (gap_analysis a))"
    and k3: "''SQL'' \<in> dict_keys (matching_skills (gap_analysis a))"
    by (simp_all add: a dict_keys_def)
  have tips: "show_upskilling_paths ?model ?jl (Some ''SQL'') (Some a) [] = [TipsPrompt ''SQL'' 4]"
    by (simp add: a show_upskilling_paths_def get_skill_improvement_tips_def generate_content_def
          canned_client_def json_accept_def)
  from run have run': "analyze_skill_gap ?model ?jl ?obs ?req [] = (Inr a, calls)" by simp
  from m k1 have n1: "calls_for ''Data Analysis'' calls = 1" by blast
  from b k2 have n2: "calls_for ''Python'' calls = 1" by blast
  from t k3 have n3: "calls_for ''SQL'' calls = 0" by blast
  show ?thesis
    by (rule conjI[OF d], rule exI[of _ a], rule exI[of _ calls])
       (intro conjI run' c k1 n1 k2 n2 k3 n3 tips)
qed

section \<open>The scenario of the spec\<close>

lemma scenario_classify:
  "classify [(''Python'', 3), (''Machine Learning'', 2)]
            [(''Python'', 4), (''Machine Learning'', 3), (''Data Analysis'', 3)]
   = \<lparr>missing_skills = [(''Data Analysis'', \<lparr>required_level = 3, current_level = 0\<rparr>)],
      matching_skills = [],
      below_level_skills = [(''Python'', \<lparr>required_level = 4, current_level = 3\<rparr>),
                            (''Machine Learning'', \<lparr>required_level = 3, current_level = 2\<rparr>)]\<rparr>"
  by (simp add: classify_def classify_skill_def empty_partition_def)

section \<open>Failed requests\<close>

lemma generate_learning_path_agree:
  assumes "\<forall>h p t. model h p = Inr t \<longleftrightarrow> model' h p = Inr t"
    and "\<forall>x d. jl x = Inr d \<longleftrightarrow> jl' x = Inr d"
  shows "(\<exists>e e'. generate_learning_path model jl s c t h = (Inr (Failure e), h @ [LearningPathPrompt s c t])
              \<and> generate_learning_path model' jl' s c t h = (Inr (Failure e'), h @ [LearningPathPrompt s c t]))
       \<or> (\<exists>d. generate_learning_path model jl s c t h = (Inr (Success d), h @ [LearningPathPrompt s c t])
              \<and> generate_learning_path model' jl' s c t h = (Inr (Success d), h @ [LearningPathPrompt s c t]))"
proof (cases "model h (LearningPathPrompt s c t)")
  case (Inl e)
  with assms(1) obtain e' where "model' h (LearningPathPrompt s c t) = Inl e'"
    by (metis sum.exhaust sum.distinct(1))
  with Inl show ?thesis
    by (simp add: generate_learning_path_def generate_content_def)
next
  case (Inr answer)
  with assms(1) have m': "model' h (LearningPathPrompt s c t) = Inr answer" by blast
  show ?thesis
  proof (cases "jl (clean_response answer)")
    case (Inl e)
    with assms(2) obtain e' where "jl' (clean_response answer) = Inl e'"
      by (metis sum.exhaust sum.distinct(1))
    with Inl Inr m' show ?thesis
      by (simp add: generate_learning_path_def generate_content_def)
  next
    case (Inr d)
    with assms(2) have "jl' (clean_response answer) = Inr d" by blast
    with Inr \<open>model h (LearningPathPrompt s c t) = Inr answer\<close> m' show ?thesis
      by (simp add: generate_learning_path_def generate_content_def)
  qed
qed

lemma request_loop_agree:
  assumes "\<forall>h p t. model h p = Inr t \<longleftrightarrow> model' h p = Inr t"
    and "\<forall>x d. jl x = Inr d \<longleftrightarrow> jl' x = Inr d"
  shows "request_loop model' jl' qs paths h = request_loop model jl qs paths h"
proof (induction qs arbitrary: paths h)
  case Nil
  then show ?case by simp
next
  case (Cons q qs)
  obtain s c t where q: "q = (s, c, t)" by (cases q)
  from generate_learning_path_agree[OF assms, of s c t h]
  consider (failure) e e' where
      "generate_learning_path model jl s c t h = (Inr (Failure e), h @ [LearningPathPrompt s c t])"
      "generate_learning_path model' jl' s c t h = (Inr (Failure e'), h @ [LearningPathPrompt s c t])"
    | (success) d where
      "generate_learning_path model jl s c t h = (Inr (Success d), h @ [LearningPathPrompt s c t])"
      "generate_learning_path model' jl' s c t h = (Inr (Success d), h @ [LearningPathPrompt s c t])"
    by blast
  then show ?case
  proof cases
    case failure
    then show ?thesis by (simp add: q Cons.IH)
  next
    case success
    then show ?thesis by (simp add: q Cons.IH)
  qed
qed

lemma analyze_skill_gap_agree:
  assumes "\<forall>h p t. model h p = Inr t \<longleftrightarrow> model' h p = Inr t"
    and "\<forall>x d. jl x = Inr d \<longleftrightarrow> jl' x = Inr d"
  shows "analyze_skill_gap model' jl' obs req h = analyze_skill_gap model jl obs req h"
  by (simp add: analyze_skill_gap_requests request_loop_agree[OF assms])

lemma requests_index:
  assumes "s \<in> fst ` set qs"
  shows "\<exists>i < length qs. \<exists>c t. qs ! i = (s, c, t)"
proof -
  from assms obtain q where "q \<in> set qs" "fst q = s" by auto
  then obtain i where "i < length qs" "qs ! i = q" by (auto simp: in_set_conv_nth)
  with \<open>fst q = s\<close> show ?thesis by (cases q) auto
qed

text \<open>
  Claim C5, amended. \<open>analyze_skill_gap\<close> always returns its result, whose gap analysis
  is the classification, whatever the model answers. Every missing or below-level skill
  has its request in the sequence of requests; when the call made for it (at the history
  of the calls before it) reports failure, the skill has no entry in \<open>learning_paths\<close>,
  and when it reports success the entry is the data returned. Nothing else of a failure
  is kept: two models, and two parsers, that succeed on the same inputs with the same
  values give the same result, whatever their errors. \<open>generate_learning_path\<close> always
  returns a tagged result.
\<close>

theorem failed_request_leaves_no_path:
  fixes json_loads :: "string \<Rightarrow> string + 'j"
  assumes "distinct (map fst job_requirements)"
  shows "\<exists>a h'. analyze_skill_gap model json_loads resume_skills job_requirements h = (Inr a, h')
     \<and> gap_analysis a = classify resume_skills job_requirements
     \<and> (\<forall>s \<in> dict_keys (missing_skills (gap_analysis a)) \<union> dict_keys (below_level_skills (gap_analysis a)).
          \<exists>i < length (requests (gap_analysis a)). \<exists>c t.
             requests (gap_analysis a) ! i = (s, c, t)
           \<and> (case fst (generate_learning_path model json_loads s c t
                          (h @ map prompt_of (take i (requests (gap_analysis a))))) of
                Inr (Failure e) \<Rightarrow> s \<notin> dict_keys (learning_paths a)
              | Inr (Success d) \<Rightarrow> map_of (learning_paths a) s = Some d
              | Inl x \<Rightarrow> False))
     \<and> (\<forall>model' json_loads'.
           (\<forall>h p t. model h p = Inr t \<longleftrightarrow> model' h p = Inr t)
           \<and> (\<forall>x d. json_loads x = Inr d \<longleftrightarrow> json_loads' x = Inr d) \<longrightarrow>
           analyze_skill_gap model' json_loads' resume_skills job_requirements h = (Inr a, h'))
     \<and> (\<forall>skill cur tgt h0. \<exists>r. generate_learning_path model json_loads skill cur tgt h0
                                  = (Inr r, h0 @ [LearningPathPrompt skill cur tgt]))"
proof -
  let ?g = "classify resume_skills job_requirements"
  let ?qs = "requests ?g"
  note dq = requests_distinct[OF assms, of resume_skills]
  obtain paths where loop: "request_loop model json_loads ?qs [] h = (Inr paths, h @ map prompt_of ?qs)"
    and each: "\<forall>i < length ?qs. \<forall>s c t. ?qs ! i = (s, c, t) \<longrightarrow>
           (case fst (generate_learning_path model json_loads s c t (h @ map prompt_of (take i ?qs))) of
              Inr (Success d) \<Rightarrow> map_of paths s = Some d
            | Inr (Failure e) \<Rightarrow> map_of paths s = map_of [] s
            | Inl x \<Rightarrow> False)"
    using request_loop_result[OF dq, of model json_loads "[]" h] by blast
  define a where "a = \<lparr>gap_analysis = ?g, learning_paths = paths\<rparr>"
  define h' where "h' = h @ map prompt_of ?qs"
  have ga: "gap_analysis a = ?g" and lp: "learning_paths a = paths" by (simp_all add: a_def)
  have run: "analyze_skill_gap model json_loads resume_skills job_requirements h = (Inr a, h')"
    by (simp add: analyze_skill_gap_requests loop a_def h'_def)
  have keys: "fst ` set ?qs = dict_keys (missing_skills ?g) \<union> dict_keys (below_level_skills ?g)"
    using requests_keys[of ?g] by (metis dict_keys_def set_append set_map)
  have per_skill: "\<forall>s \<in> dict_keys (missing_skills (gap_analysis a)) \<union> dict_keys (below_level_skills (gap_analysis a)).
          \<exists>i < length (requests (gap_analysis a)). \<exists>c t.
             requests (gap_analysis a) ! i = (s, c, t)
           \<and> (case fst (generate_learning_path model json_loads s c t
                          (h @ map prompt_of (take i (requests (gap_analysis a))))) of
                Inr (Failure e) \<Rightarrow> s \<notin> dict_keys (learning_paths a)
              | Inr (Success d) \<Rightarrow> map_of (learning_paths a) s = Some d
              | Inl x \<Rightarrow> False)"
    unfolding ga lp
  proof
    fix s assume "s \<in> dict_keys (missing_skills ?g) \<union> dict_keys (below_level_skills ?g)"
    then have "s \<in> fst ` set ?qs" using keys by simp
    then obtain i c t where i: "i < length ?qs" and at: "?qs ! i = (s, c, t)"
      using requests_index[of s ?qs] by blast
    from each i at
    have "case fst (generate_learning_path model json_loads s c t (h @ map prompt_of (take i ?qs))) of
              Inr (Success d) \<Rightarrow> map_of paths s = Some d
            | Inr (Failure e) \<Rightarrow> map_of paths s = map_of [] s
            | Inl x \<Rightarrow> False"
      by blast
    then have "case fst (generate_learning_path model json_loads s c t (h @ map prompt_of (take i ?qs))) of
                Inr (Failure e) \<Rightarrow> s \<notin> dict_keys paths
              | Inr (Success d) \<Rightarrow> map_of paths s = Some d
              | Inl x \<Rightarrow> False"
      by (auto simp: dict_keys_dom dom_def split: sum.splits tagged.splits)
    with i at show "\<exists>i < length ?qs. \<exists>c t. ?qs ! i = (s, c, t)
           \<and> (case fst (generate_learning_path model json_loads s c t (h @ map prompt_of (take i ?qs))) of
                Inr (Failure e) \<Rightarrow> s \<notin> dict_keys paths
              | Inr (Success d) \<Rightarrow> map_of paths s = Some d
              | Inl x \<Rightarrow> False)"
      by blast
  qed
  have same: "\<forall>model' json_loads'.
           (\<forall>h p t. model h p = Inr t \<longleftrightarrow> model' h p = Inr t)
           \<and> (\<forall>x d. json_loads x = Inr d \<longleftrightarrow> json_loads' x = Inr d) \<longrightarrow>
           analyze_skill_gap model' json_loads' resume_skills job_requirements h = (Inr a, h')"
  proof (intro allI impI)
    fix model' :: client and json_loads' :: "string \<Rightarrow> string + 'j"
    assume agree: "(\<forall>h p t. model h p = Inr t \<longleftrightarrow> model' h p = Inr t)
           \<and> (\<forall>x d. json_loads x = Inr d \<longleftrightarrow> json_loads' x = Inr d)"
    from agree have m: "\<forall>h p t. model h p = Inr t \<longleftrightarrow> model' h p = Inr t"
      and j: "\<forall>x d. json_loads x = Inr d \<longleftrightarrow> json_loads' x = Inr d"
      by blast+
    show "analyze_skill_gap model' json_loads' resume_skills job_requirements h = (Inr a, h')"
      unfolding analyze_skill_gap_agree[OF m j] by (rule run)
  qed
  have tagged: "\<forall>skill cur tgt h0. \<exists>r. generate_learning_path model json_loads skill cur tgt h0
                                  = (Inr r, h0 @ [LearningPathPrompt skill cur tgt])"
    using generate_learning_path_returns by blast
  show ?thesis
    by (rule exI[of _ a], rule exI[of _ h']) (intro conjI run ga per_skill same tagged)
qed

lemma failing_client_call:
  "generate_learning_path (failing_client msg) jl s c t h
     = (Inr (Failure msg), h @ [LearningPathPrompt s c t])"
  by (simp add: generate_learning_path_def generate_content_def failing_client_def)

text \<open>
  The scenario of the spec with a model whose every call raises: the missing skill keeps
  its entry, has no learning path, and another error message gives the same result.
\<close>

theorem failed_request_leaves_no_path_witness:
  "distinct (map fst [(''Python'', 4 :: int), (''Machine Learning'', 3), (''Data Analysis'', 3)])
   \<and> (\<exists>a h'. analyze_skill_gap (failing_client ''quota exceeded'') json_reject
                [(''Python'', 3), (''Machine Learning'', 2)]
                [(''Python'', 4), (''Machine Learning'', 3), (''Data Analysis'', 3)] [] = (Inr a, h')
        \<and> ''Data Analysis'' \<in> dict_keys (missing_skills (gap_analysis a))
        \<and> ''Data Analysis'' \<notin> dict_keys (learning_paths a)
        \<and> analyze_skill_gap (failing_client ''service unavailable'') json_reject
                [(''Python'', 3), (''Machine Learning'', 2)]
                [(''Python'', 4), (''Machine Learning'', 3), (''Data Analysis'', 3)] [] = (Inr a, h'))"
proof -
  let ?req = "[(''Python'', 4 :: int), (''Machine Learning'', 3), (''Data Analysis'', 3)]"
  let ?obs = "[(''Python'', 3 :: int), (''Machine Learning'', 2)]"
  let ?model = "failing_client ''quota exceeded''"
  have d: "distinct (map fst ?req)" by simp
  obtain a h' where run: "analyze_skill_gap ?model json_reject ?obs ?req [] = (Inr a, h')"
    and ga: "gap_analysis a = classify ?obs ?req"
    and per_skill: "\<forall>s \<in> dict_keys (missing_skills (gap_analysis a)) \<union> dict_keys (below_level_skills (gap_analysis a)).
          \<exists>i < length (requests (gap_analysis a)). \<exists>c t.
             requests (gap_analysis a) ! i = (s, c, t)
           \<and> (case fst (generate_learning_path ?model json_reject s c t
                          ([] @ map prompt_of (take i (requests (gap_analysis a))))) of
                Inr (Failure e) \<Rightarrow> s \<notin> dict_keys (learning_paths a)
              | Inr (Success d) \<Rightarrow> map_of (learning_paths a) s = Some d
              | Inl x \<Rightarrow> False)"
    and same: "\<forall>model' json_loads'.
           (\<forall>h p t. ?model h p = Inr t \<longleftrightarrow> model' h p = Inr t)
           \<and> (\<forall>x d. json_reject x = Inr d \<longleftrightarrow> json_loads' x = Inr d) \<longrightarrow>
           analyze_skill_gap model' json_loads' ?obs ?req [] = (Inr a, h')"
    using failed_request_leaves_no_path[OF d, of ?model json_reject ?obs "[]"] by blast
  have k: "''Data Analysis'' \<in> dict_keys (missing_skills (gap_analysis a))"
    unfolding ga scenario_classify by (simp add: dict_keys_def)
  with per_skill obtain i c t where
    "case fst (generate_learning_path ?model json_reject ''Data Analysis'' c t
                          ([] @ map prompt_of (take i (requests (gap_analysis a))))) of
                Inr (Failure e) \<Rightarrow> ''Data Analysis'' \<notin> dict_keys (learning_paths a)
              | Inr (Success d) \<Rightarrow> map_of (learning_paths a) ''Data Analysis'' = Some d
              | Inl x \<Rightarrow> False"
    by blast
  then have n: "''Data Analysis'' \<notin> dict_keys (learning_paths a)"
    by (simp add: failing_client_call)
  have "(\<forall>h p t. ?model h p = Inr t \<longleftrightarrow> failing_client ''service unavailable'' h p = Inr t)
      \<and> (\<forall>x d. json_reject x = Inr d \<longleftrightarrow> json_reject x = Inr d)"
    by (simp add: failing_client_def)
  with same have other: "analyze_skill_gap (failing_client ''service unavailable'') json_reject ?obs ?req []
      = (Inr a, h')"
    by blast
  show ?thesis
    by (rule conjI[OF d], rule exI[of _ a], rule exI[of _ h']) (intro conjI run k n other)
qed

text \<open>
  Claim C5 as stated fails where it says that a soft failure is recorded. In the scenario
  of the spec the call for the missing skill fails, once because the payload is malformed
  and once because the service raises: both runs return the same value, the three
  partitions and an empty dictionary of learning paths, and the same history of calls.
\<close>

theorem failure_recorded_counterexample:
  "fst (generate_learning_path (canned_client ''Sorry, no JSON today'') json_reject ''Data Analysis'' 0 3 [])
     = Inr (Failure ''Expecting value'')
   \<and> fst (generate_learning_path (failing_client ''quota exceeded'') json_reject ''Data Analysis'' 0 3 [])
     = Inr (Failure ''quota exceeded'')
   \<and> analyze_skill_gap (canned_client ''Sorry, no JSON today'') json_reject
        [(''Python'', 3), (''Machine Learning'', 2)]
        [(''Python'', 4), (''Machine Learning'', 3), (''Data Analysis'', 3)] []
     = (Inr \<lparr>gap_analysis =
               \<lparr>missing_skills = [(''Data Analysis'', \<lparr>required_level = 3, current_level = 0\<rparr>)],
                matching_skills = [],
                below_level_skills = [(''Python'', \<lparr>required_level = 4, current_level = 3\<rparr>),
                                      (''Machine Learning'', \<lparr>required_level = 3, current_level = 2\<rparr>)]\<rparr>,
              learning_paths = []\<rparr>,
        [LearningPathPrompt ''Data Analysis'' 0 3, LearningPathPrompt ''Python'' 3 4,
         LearningPathPrompt ''Machine Learning'' 2 3])
   \<and> analyze_skill_gap (failing_client ''quota exceeded'') json_reject
        [(''Python'', 3), (''Machine Learning'', 2)]
        [(''Python'', 4), (''Machine Learning'', 3), (''Data Analysis'', 3)] []
     = (Inr \<lparr>gap_analysis =
               \<lparr>missing_skills = [(''Data Analysis'', \<lparr>required_level = 3, current_level = 0\<rparr>)],
                matching_skills = [],
                below_level_skills = [(''Python'', \<lparr>required_level = 4, current_level = 3\<rparr>),
                                      (''Machine Learning'', \<lparr>required_level = 3, current_level = 2\<rparr>)]\<rparr>,
              learning_paths = []\<rparr>,
        [LearningPathPrompt ''Data Analysis'' 0 3, LearningPathPrompt ''Python'' 3 4,
         LearningPathPrompt ''Machine Learning'' 2 3])"
  by (simp add: analyze_skill_gap_def scenario_classify generate_learning_path_def generate_content_def
        canned_client_def failing_client_def json_reject_def)

section \<open>The proficiency estimate\<close>

lemma table4:
  "(\<exists>ps. (l, ps) \<in> set [(a, A), (b, B), (c, C), (d, D)] \<and> Q ps)
     \<longleftrightarrow> (l = a \<and> Q A) \<or> (l = b \<and> Q B) \<or> (l = c \<and> Q C) \<or> (l = d \<and> Q D)"
  by auto

lemma tier_present_iff:
  "tier_present skill text lvl \<longleftrightarrow>
     (lvl = 5 \<and> list_ex (\<lambda>phrase. str_in phrase (lower text)) (tier5 (lower skill)))
   \<or> (lvl = 4 \<and> list_ex (\<lambda>phrase. str_in phrase (lower text)) (tier4 (lower skill)))
   \<or> (lvl = 3 \<and> list_ex (\<lambda>phrase. str_in phrase (lower text)) (tier3 (lower skill)))
   \<or> (lvl = 2 \<and> list_ex (\<lambda>phrase. str_in phrase (lower text)) (tier2 (lower skill)))"
  unfolding tier_present_def spec_tiers_def tier5_def tier4_def tier3_def tier2_def list_ex_iff
  by (rule table4)

lemma tiers_present_set:
  "{lvl. tier_present skill text lvl} =
     (if tier_present skill text 5 then {5} else {}) \<union> (if tier_present skill text 4 then {4} else {})
     \<union> (if tier_present skill text 3 then {3} else {}) \<union> (if tier_present skill text 2 then {2} else {})"
  by (auto simp: tier_present_iff)

lemma estimate_by_tiers:
  "estimate_proficiency skill text =
     (if tier_present skill text 5 then 5 else if tier_present skill text 4 then 4
      else if tier_present skill text 3 then 3 else if tier_present skill text 2 then 2 else 1)"
  by (simp add: estimate_proficiency_def Let_def tier_present_iff)

lemma estimate_range: "1 \<le> estimate_proficiency skill text \<and> estimate_proficiency skill text \<le> 5"
  by (simp add: estimate_by_tiers)

text \<open>
  Claim C3. \<open>estimate_proficiency\<close> returns the highest level among the tiers of the
  spec's table that have a phrase, with the lowercased skill substituted, occurring in the
  lowercased text, and 1 when no tier has one: it is the greatest element of the set of
  those levels together with 1. In particular a text with a phrase of tier 3 and a phrase
  of tier 5 gives 5, and a text with no phrase of any tier gives 1.
\<close>

theorem estimate_is_highest_tier:
  "estimate_proficiency skill text = Max (insert 1 {lvl. tier_present skill text lvl})
   \<and> (tier_present skill text 3 \<and> tier_present skill text 5 \<longrightarrow> estimate_proficiency skill text = 5)
   \<and> ((\<forall>lvl. \<not> tier_present skill text lvl) \<longrightarrow> estimate_proficiency skill text = 1)
   \<and> (\<forall>lvl. lvl \<noteq> 1 \<longrightarrow>
         (estimate_proficiency skill text = lvl \<longleftrightarrow>
            tier_present skill text lvl \<and> (\<forall>l. lvl < l \<longrightarrow> \<not> tier_present skill text l)))"
proof -
  have a: "estimate_proficiency skill text = Max (insert 1 {lvl. tier_present skill text lvl})"
    unfolding tiers_present_set estimate_by_tiers by simp
  have b: "tier_present skill text 3 \<and> tier_present skill text 5 \<longrightarrow> estimate_proficiency skill text = 5"
    by (simp add: estimate_by_tiers)
  have c: "(\<forall>lvl. \<not> tier_present skill text lvl) \<longrightarrow> estimate_proficiency skill text = 1"
    by (simp add: estimate_by_tiers)
  have only: "tier_present skill text l \<Longrightarrow> l = 5 \<or> l = 4 \<or> l = 3 \<or> l = 2" for l
    by (auto simp: tier_present_iff)
  have d: "\<forall>lvl. lvl \<noteq> 1 \<longrightarrow>
         (estimate_proficiency skill text = lvl \<longleftrightarrow>
            tier_present skill text lvl \<and> (\<forall>l. lvl < l \<longrightarrow> \<not> tier_present skill text l))"
  proof (intro allI impI iffI)
    fix lvl :: int
    assume "lvl \<noteq> 1" and e: "estimate_proficiency skill text = lvl"
    then have tp: "tier_present skill text lvl"
      unfolding estimate_by_tiers by (auto split: if_splits)
    have "\<not> tier_present skill text l" if "lvl < l" for l
    proof
      assume tl: "tier_present skill text l"
      from only[OF tl] that e tl show False
        unfolding estimate_by_tiers by (auto split: if_splits)
    qed
    with tp show "tier_present skill text lvl \<and> (\<forall>l. lvl < l \<longrightarrow> \<not> tier_present skill text l)"
      by blast
  next
    fix lvl :: int
    assume "lvl \<noteq> 1" and p: "tier_present skill text lvl \<and> (\<forall>l. lvl < l \<longrightarrow> \<not> tier_present skill text l)"
    from p only have "lvl = 5 \<or> lvl = 4 \<or> lvl = 3 \<or> lvl = 2" by blast
    with p show "estimate_proficiency skill text = lvl"
      unfolding estimate_by_tiers by auto
  qed
  from a b c d show ?thesis by blast
qed

text \<open>A text with a phrase of tier 3 and a phrase of tier 5 for the same skill.\<close>

theorem estimate_is_highest_tier_witness:
  "tier_present ''Python'' ''Experience with Python since 2015. Expert in Python.'' 3
   \<and> tier_present ''Python'' ''Experience with Python since 2015. Expert in Python.'' 5
   \<and> estimate_proficiency ''Python'' ''Experience with Python since 2015. Expert in Python.'' = 5
   \<and> \<not> tier_present ''Python'' ''Experience with Python since 2015. Expert in Python.'' 4"
proof -
  let ?t = "''Experience with Python since 2015. Expert in Python.''"
  have t3: "list_ex (\<lambda>phrase. str_in phrase (lower ?t)) (tier3 (lower ''Python''))"
    by code_simp
  have t5: "list_ex (\<lambda>phrase. str_in phrase (lower ?t)) (tier5 (lower ''Python''))"
    by code_simp
  have t4: "\<not> list_ex (\<lambda>phrase. str_in phrase (lower ?t)) (tier4 (lower ''Python''))"
    by code_simp
  have p3: "tier_present ''Python'' ?t 3" using t3 by (simp add: tier_present_iff)
  have p5: "tier_present ''Python'' ?t 5" using t5 by (simp add: tier_present_iff)
  have p4: "\<not> tier_present ''Python'' ?t 4" using t4 by (simp add: tier_present_iff)
  from estimate_is_highest_tier[of "''Python''" ?t] p3 p5
  have "estimate_proficiency ''Python'' ?t = 5" by blast
  with p3 p5 p4 show ?thesis by blast
qed

section \<open>The parsed resume\<close>

lemma set_dict_set: "set (dict_set k v d) \<subseteq> insert (k, v) (set d)"
  by (induction d) auto

lemma skill_found_iff: "skill_found skill_ontology skill \<longleftrightarrow> skill \<in> ontology_keys skill_ontology"
  by (auto simp: skill_found_def ontology_keys_def list_ex_iff dict_keys_dom dom_def)

lemma levels_fold_keys:
  "dict_keys (foldl (\<lambda>skill_levels skill.
                       if skill_found skill_ontology skill
                       then dict_set skill (estimate_proficiency skill text) skill_levels
                       else skill_levels) acc skills)
   = dict_keys acc \<union> {s \<in> set skills. skill_found skill_ontology s}"
  by (induction skills arbitrary: acc) (auto simp: dict_keys_set)

lemma levels_fold_range:
  "\<forall>(s, l) \<in> set acc. 1 \<le> l \<and> l \<le> 5 \<Longrightarrow>
   \<forall>(s, l) \<in> set (foldl (\<lambda>skill_levels skill.
                       if skill_found skill_ontology skill
                       then dict_set skill (estimate_proficiency skill text) skill_levels
                       else skill_levels) acc skills). 1 \<le> l \<and> l \<le> 5"
proof (induction skills arbitrary: acc)
  case Nil
  then show ?case by simp
next
  case (Cons skill skills)
  have "\<forall>(s, l) \<in> set (dict_set skill (estimate_proficiency skill text) acc). 1 \<le> l \<and> l \<le> 5"
    using Cons.prems set_dict_set[of skill "estimate_proficiency skill text" acc]
      estimate_range[of skill "text"]
    by auto
  with Cons.prems Cons.IH show ?case by simp
qed

lemma parse_resume_Inr:
  assumes "parse_resume fs nlp skill_ontology file_path = Inr levels"
  shows "\<exists>text skills. extract_text fs file_path = Inr text
     \<and> extract_skills_with_nlp nlp skill_ontology text = Inr skills
     \<and> levels = foldl (\<lambda>skill_levels skill.
                       if skill_found skill_ontology skill
                       then dict_set skill (estimate_proficiency skill text) skill_levels
                       else skill_levels) [] skills"
  using assms by (auto simp: parse_resume_def split: sum.splits)

lemma parse_resume_keys:
  assumes "parse_resume fs nlp skill_ontology file_path = Inr levels"
    and "extract_text fs file_path = Inr text"
    and "extract_skills_with_nlp nlp skill_ontology text = Inr skills"
  shows "dict_keys levels = set skills \<inter> ontology_keys skill_ontology"
proof -
  from assms have "levels = foldl (\<lambda>skill_levels skill.
                       if skill_found skill_ontology skill
                       then dict_set skill (estimate_proficiency skill text) skill_levels
                       else skill_levels) [] skills"
    by (simp add: parse_resume_def)
  then have "dict_keys levels = {s \<in> set skills. skill_found skill_ontology s}"
    using levels_fold_keys[of skill_ontology "text" "[]" skills] by (simp add: dict_keys_def[of "[]"])
  then show ?thesis
    by (auto simp: skill_found_iff dict_keys_def)
qed

lemma parse_resume_range:
  assumes "parse_resume fs nlp skill_ontology file_path = Inr levels"
  shows "\<forall>(s, l) \<in> set levels. 1 \<le> l \<and> l \<le> 5"
proof -
  from parse_resume_Inr[OF assms] obtain body skills where
    "levels = foldl (\<lambda>skill_levels skill.
                       if skill_found skill_ontology skill
                       then dict_set skill (estimate_proficiency skill body) skill_levels
                       else skill_levels) [] skills"
    by blast
  then show ?thesis
    using levels_fold_range[of "[]" skill_ontology body skills] by simp
qed

lemma partition_entry:
  assumes "(s, e) \<in> set (matching_skills (classify obs req)) \<union> set (below_level_skills (classify obs req))"
    and "distinct (map fst req)"
  shows "\<exists>l. map_of obs s = Some l \<and> current_level e = l"
proof -
  note d = assms(2)
  from assms(1) consider "(s, e) \<in> set (matching_skills (classify obs req))"
    | "(s, e) \<in> set (below_level_skills (classify obs req))" by blast
  then show ?thesis
  proof cases
    case 1
    then have "map_of (matching_skills (classify obs req)) s = Some e"
      using classify_distinct(2)[of obs req] by simp
    then show ?thesis
      unfolding classify_matching[OF d] by (auto split: option.splits if_splits)
  next
    case 2
    then have "map_of (below_level_skills (classify obs req)) s = Some e"
      using classify_distinct(3)[of obs req] by simp
    then show ?thesis
      unfolding classify_below[OF d] by (auto split: option.splits if_splits)
  qed
qed

lemma missing_entry:
  assumes "(s, e) \<in> set (missing_skills (classify obs req))" and "distinct (map fst req)"
  shows "map_of obs s = None \<and> current_level e = 0"
proof -
  from assms(1) have "map_of (missing_skills (classify obs req)) s = Some e"
    using classify_distinct(1)[of obs req] by simp
  then show ?thesis
    unfolding classify_missing[OF assms(2)] by (auto split: option.splits if_splits)
qed

lemma sample_resume:
  "parse_resume (sample_files ''.TXT'' ''Senior Python engineer with advanced machine learning skills'')
     no_tokens sample_ontology ''cv.TXT'' = Inr [(''Python'', 5), (''Machine Learning'', 5)]"
  by code_simp

text \<open>
  Claim C7. \<open>estimate_proficiency\<close> returns a level from 1 to 5, so every level of the
  map returned by \<open>parse_resume\<close> is in that range. When that map is the observed map
  of a gap analysis, the entries of \<open>matching_skills\<close> and \<open>below_level_skills\<close> carry
  its levels, which are at least 1: the current level 0 is found in \<open>missing_skills\<close> and
  nowhere else.
\<close>

theorem observed_levels_in_range:
  "1 \<le> estimate_proficiency skill text \<and> estimate_proficiency skill text \<le> 5
   \<and> (parse_resume fs nlp skill_ontology file_path = Inr levels \<longrightarrow>
         (\<forall>(s, l) \<in> set levels. 1 \<le> l \<and> l \<le> 5)
       \<and> (\<forall>model json_loads job_requirements h. distinct (map fst job_requirements) \<longrightarrow>
             (\<exists>a h'. analyze_skill_gap model json_loads levels job_requirements h = (Inr a, h')
                \<and> (\<forall>(s, e) \<in> set (missing_skills (gap_analysis a)). current_level e = 0)
                \<and> (\<forall>(s, e) \<in> set (matching_skills (gap_analysis a)) \<union> set (below_level_skills (gap_analysis a)).
                      1 \<le> current_level e \<and> current_level e \<le> 5 \<and> map_of levels s = Some (current_level e)))))"
proof -
  have run: "\<exists>a h'. analyze_skill_gap model json_loads levels job_requirements h = (Inr a, h')
                \<and> (\<forall>(s, e) \<in> set (missing_skills (gap_analysis a)). current_level e = 0)
                \<and> (\<forall>(s, e) \<in> set (matching_skills (gap_analysis a)) \<union> set (below_level_skills (gap_analysis a)).
                      1 \<le> current_level e \<and> current_level e \<le> 5 \<and> map_of levels s = Some (current_level e))"
    if p: "parse_resume fs nlp skill_ontology file_path = Inr levels"
      and d: "distinct (map fst job_requirements)"
    for model :: client and json_loads :: "string \<Rightarrow> string + 'j" and job_requirements h
  proof -
    let ?g = "classify levels job_requirements"
    obtain paths h' where r: "analyze_skill_gap model json_loads levels job_requirements h
       = (Inr \<lparr>gap_analysis = ?g, learning_paths = paths\<rparr>, h')"
      using analyze_skill_gap_returns by blast
    define a where "a = \<lparr>gap_analysis = ?g, learning_paths = paths\<rparr>"
    have ga: "gap_analysis a = ?g" by (simp add: a_def)
    have r': "analyze_skill_gap model json_loads levels job_requirements h = (Inr a, h')"
      using r by (simp add: a_def)
    have m: "\<forall>(s, e) \<in> set (missing_skills (gap_analysis a)). current_level e = 0"
      unfolding ga using missing_entry[OF _ d, of _ _ levels] by blast
    have o: "\<forall>(s, e) \<in> set (matching_skills (gap_analysis a)) \<union> set (below_level_skills (gap_analysis a)).
                      1 \<le> current_level e \<and> current_level e \<le> 5 \<and> map_of levels s = Some (current_level e)"
      unfolding ga
    proof (intro ballI, clarify)
      fix s e
      assume "(s, e) \<in> set (matching_skills ?g) \<union> set (below_level_skills ?g)"
      from partition_entry[OF this d] have l: "map_of levels s = Some (current_level e)" by simp
      then have "(s, current_level e) \<in> set levels" by (rule map_of_SomeD)
      with parse_resume_range[OF p] l
      show "1 \<le> current_level e \<and> current_level e \<le> 5 \<and> map_of levels s = Some (current_level e)"
        by auto
    qed
    from r' m o show ?thesis by blast
  qed
  show ?thesis
    using estimate_range[of skill "text"] parse_resume_range[of fs nlp skill_ontology file_path levels] run
    by blast
qed

text \<open>
  The extraction scenario of the spec, followed by a gap analysis that needs one of the
  two skills at a level it has and a third skill it lacks.
\<close>

theorem observed_levels_in_range_witness:
  "parse_resume (sample_files ''.TXT'' ''Senior Python engineer with advanced machine learning skills'')
     no_tokens sample_ontology ''cv.TXT'' = Inr [(''Python'', 5), (''Machine Learning'', 5)]
   \<and> list_all (\<lambda>(s, l). 1 \<le> l \<and> l \<le> 5) [(''Python'', 5 :: int), (''Machine Learning'', 5)]
   \<and> distinct (map fst [(''Python'', 4 :: int), (''SQL'', 2)])
   \<and> (\<exists>a h'. analyze_skill_gap (failing_client ''quota exceeded'') json_reject
                 [(''Python'', 5), (''Machine Learning'', 5)] [(''Python'', 4), (''SQL'', 2)] [] = (Inr a, h')
         \<and> (''SQL'', \<lparr>required_level = 2, current_level = 0\<rparr>) \<in> set (missing_skills (gap_analysis a))
         \<and> (''Python'', \<lparr>required_level = 4, current_level = 5\<rparr>) \<in> set (matching_skills (gap_analysis a))
         \<and> (\<forall>(s, e) \<in> set (matching_skills (gap_analysis a)) \<union> set (below_level_skills (gap_analysis a)).
                1 \<le> current_level e))"
proof -
  let ?levels = "[(''Python'', 5 :: int), (''Machine Learning'', 5)]"
  let ?req = "[(''Python'', 4 :: int), (''SQL'', 2)]"
  have d: "distinct (map fst ?req)" by simp
  from observed_levels_in_range[of "''Python''" "''''" _ _ _ _ ?levels] sample_resume
  have range: "\<forall>(s, l) \<in> set ?levels. 1 \<le> l \<and> l \<le> 5"
    and gap: "\<forall>model json_loads job_requirements h. distinct (map fst job_requirements) \<longrightarrow>
             (\<exists>a h'. analyze_skill_gap model (json_loads :: string \<Rightarrow> string + unit) ?levels job_requirements h = (Inr a, h')
                \<and> (\<forall>(s, e) \<in> set (missing_skills (gap_analysis a)). current_level e = 0)
                \<and> (\<forall>(s, e) \<in> set (matching_skills (gap_analysis a)) \<union> set (below_level_skills (gap_analysis a)).
                      1 \<le> current_level e \<and> current_level e \<le> 5 \<and> map_of ?levels s = Some (current_level e)))"
    by blast+
  from gap d obtain a h' where
    run: "analyze_skill_gap (failing_client ''quota exceeded'') json_reject ?levels ?req [] = (Inr a, h')"
    and o: "\<forall>(s, e) \<in> set (matching_skills (gap_analysis a)) \<union> set (below_level_skills (gap_analysis a)).
                      1 \<le> current_level e \<and> current_level e \<le> 5 \<and> map_of ?levels s = Some (current_level e)"
    by blast
  have ev: "analyze_skill_gap (failing_client ''quota exceeded'') json_reject ?levels ?req []
      = (Inr \<lparr>gap_analysis = \<lparr>missing_skills = [(''SQL'', \<lparr>required_level = 2, current_level = 0\<rparr>)],
                                matching_skills = [(''Python'', \<lparr>required_level = 4, current_level = 5\<rparr>)],
                                below_level_skills = []\<rparr>,
               learning_paths = []\<rparr>,
         [LearningPathPrompt ''SQL'' 0 2])"
    by (simp add: analyze_skill_gap_def classify_def classify_skill_def empty_partition_def
          generate_learning_path_def generate_content_def failing_client_def)
  from run ev have a: "gap_analysis a = \<lparr>missing_skills = [(''SQL'', \<lparr>required_level = 2, current_level = 0\<rparr>)],
                                matching_skills = [(''Python'', \<lparr>required_level = 4, current_level = 5\<rparr>)],
                                below_level_skills = []\<rparr>"
    by auto
  have m1: "(''SQL'', \<lparr>required_level = 2, current_level = 0\<rparr>) \<in> set (missing_skills (gap_analysis a))"
    and m2: "(''Python'', \<lparr>required_level = 4, current_level = 5\<rparr>) \<in> set (matching_skills (gap_analysis a))"
    by (simp_all add: a)
  from o have o': "\<forall>(s, e) \<in> set (matching_skills (gap_analysis a)) \<union> set (below_level_skills (gap_analysis a)).
                1 \<le> current_level e"
    by blast
  from range have range': "list_all (\<lambda>(s, l). 1 \<le> l \<and> l \<le> 5) ?levels"
    by (simp only: list_all_iff)
  show ?thesis
    by (intro conjI sample_resume range' d exI[of _ a] exI[of _ h'] run m1 m2 o')
qed

lemma sample_candidates:
  "extract_skills_with_nlp sample_parse sample_ontology ''Experience includes Python''
     = Inr [''Python'', ''python'']"
  by code_simp

lemma sample_pattern_resume:
  "parse_resume (sample_files ''.txt'' ''Experience includes Python'') sample_parse sample_ontology ''cv.txt''
     = Inr [(''Python'', 1)]"
  by code_simp

lemma sample_text:
  "extract_text (sample_files ''.txt'' ''Experience includes Python'') ''cv.txt''
     = Inr ''Experience includes Python''"
  by code_simp

text \<open>
  Claim C4. A skill is a key of the map returned by \<open>parse_resume\<close> only if it is one of
  the candidates and its name equals, ignoring case, a skill key of some category of the
  ontology; a candidate, from either scan, whose name equals no ontology key ignoring case
  is not in the map.
\<close>

theorem retained_only_if_in_ontology:
  assumes "parse_resume fs nlp skill_ontology file_path = Inr levels"
  shows "\<exists>text skills. extract_text fs file_path = Inr text
     \<and> extract_skills_with_nlp nlp skill_ontology text = Inr skills
     \<and> (\<forall>s \<in> dict_keys levels. s \<in> set skills \<and> (\<exists>k \<in> ontology_keys skill_ontology. lower k = lower s))
     \<and> (\<forall>c \<in> set skills. (\<forall>k \<in> ontology_keys skill_ontology. lower k \<noteq> lower c) \<longrightarrow> c \<notin> dict_keys levels)"
proof -
  from parse_resume_Inr[OF assms] obtain body skills where
    t: "extract_text fs file_path = Inr body"
    and c: "extract_skills_with_nlp nlp skill_ontology body = Inr skills"
    by blast
  note k = parse_resume_keys[OF assms t c]
  have a: "\<forall>s \<in> dict_keys levels. s \<in> set skills \<and> (\<exists>k \<in> ontology_keys skill_ontology. lower k = lower s)"
    unfolding k by blast
  have b: "\<forall>c \<in> set skills. (\<forall>k \<in> ontology_keys skill_ontology. lower k \<noteq> lower c) \<longrightarrow> c \<notin> dict_keys levels"
    unfolding k by blast
  from t c a b show ?thesis by blast
qed

text \<open>
  A resume whose candidates are \<open>Python\<close>, from the ontology scan, and \<open>python\<close>, from the
  pattern scan: the key of the returned map matches an ontology key ignoring case.
\<close>

theorem retained_only_if_in_ontology_witness:
  "parse_resume (sample_files ''.txt'' ''Experience includes Python'') sample_parse sample_ontology ''cv.txt''
     = Inr [(''Python'', 1)]
   \<and> extract_skills_with_nlp sample_parse sample_ontology ''Experience includes Python''
     = Inr [''Python'', ''python'']
   \<and> ''Python'' \<in> dict_keys [(''Python'', 1 :: int)]
   \<and> (\<exists>k \<in> ontology_keys sample_ontology. lower k = lower ''Python'')"
proof -
  from retained_only_if_in_ontology[OF sample_pattern_resume]
  have a: "\<forall>s \<in> dict_keys [(''Python'', 1 :: int)]. \<exists>k \<in> ontology_keys sample_ontology. lower k = lower s"
    by blast
  have m: "''Python'' \<in> dict_keys [(''Python'', 1 :: int)]" by (simp add: dict_keys_def)
  with a have "\<exists>k \<in> ontology_keys sample_ontology. lower k = lower ''Python''" by blast
  with sample_pattern_resume sample_candidates m show ?thesis by blast
qed

text \<open>
  Claim C10. Every key of the map returned by \<open>parse_resume\<close> is, character for
  character, a skill key of some category of the ontology: the keys are exactly the
  candidates that are ontology keys. So a candidate in lowercase is kept only when that
  lowercase string is itself an ontology key, and when no two ontology keys differ only
  in case, no two keys of the returned map do.
\<close>

theorem keys_are_ontology_keys:
  assumes "parse_resume fs nlp skill_ontology file_path = Inr levels"
  shows "dict_keys levels \<subseteq> ontology_keys skill_ontology
     \<and> (\<exists>text skills. extract_text fs file_path = Inr text
           \<and> extract_skills_with_nlp nlp skill_ontology text = Inr skills
           \<and> dict_keys levels = set skills \<inter> ontology_keys skill_ontology
           \<and> (\<forall>c \<in> set skills. lower c = c \<longrightarrow>
                 (c \<in> dict_keys levels \<longleftrightarrow> (\<exists>k \<in> ontology_keys skill_ontology. k = c \<and> lower k = k))))
     \<and> ((\<forall>k1 \<in> ontology_keys skill_ontology. \<forall>k2 \<in> ontology_keys skill_ontology.
             lower k1 = lower k2 \<longrightarrow> k1 = k2) \<longrightarrow>
         (\<forall>s1 \<in> dict_keys levels. \<forall>s2 \<in> dict_keys levels. lower s1 = lower s2 \<longrightarrow> s1 = s2))"
proof -
  from parse_resume_Inr[OF assms] obtain body skills where
    t: "extract_text fs file_path = Inr body"
    and c: "extract_skills_with_nlp nlp skill_ontology body = Inr skills"
    by blast
  note k = parse_resume_keys[OF assms t c]
  have sub: "dict_keys levels \<subseteq> ontology_keys skill_ontology"
    unfolding k by blast
  have low: "\<forall>c \<in> set skills. lower c = c \<longrightarrow>
                 (c \<in> dict_keys levels \<longleftrightarrow> (\<exists>k \<in> ontology_keys skill_ontology. k = c \<and> lower k = k))"
    unfolding k by auto
  have uniq: "(\<forall>k1 \<in> ontology_keys skill_ontology. \<forall>k2 \<in> ontology_keys skill_ontology.
             lower k1 = lower k2 \<longrightarrow> k1 = k2) \<longrightarrow>
         (\<forall>s1 \<in> dict_keys levels. \<forall>s2 \<in> dict_keys levels. lower s1 = lower s2 \<longrightarrow> s1 = s2)"
    using sub by blast
  from sub t c k low uniq show ?thesis by blast
qed

text \<open>
  The same resume: the lowercase candidate \<open>python\<close> of the pattern scan is dropped,
  because the ontology spells the key \<open>Python\<close>.
\<close>

theorem keys_are_ontology_keys_witness:
  "parse_resume (sample_files ''.txt'' ''Experience includes Python'') sample_parse sample_ontology ''cv.txt''
     = Inr [(''Python'', 1)]
   \<and> extract_skills_with_nlp sample_parse sample_ontology ''Experience includes Python''
     = Inr [''Python'', ''python'']
   \<and> dict_keys [(''Python'', 1 :: int)] \<subseteq> ontology_keys sample_ontology
   \<and> lower ''python'' = ''python''
   \<and> ''python'' \<notin> dict_keys [(''Python'', 1 :: int)]
   \<and> \<not> (\<exists>k \<in> ontology_keys sample_ontology. k = ''python'' \<and> lower k = k)"
proof -
  from keys_are_ontology_keys[OF sample_pattern_resume]
  have sub: "dict_keys [(''Python'', 1 :: int)] \<subseteq> ontology_keys sample_ontology"
    and ex: "\<exists>text skills. extract_text (sample_files ''.txt'' ''Experience includes Python'') ''cv.txt'' = Inr text
           \<and> extract_skills_with_nlp sample_parse sample_ontology text = Inr skills
           \<and> (\<forall>c \<in> set skills. lower c = c \<longrightarrow>
                 (c \<in> dict_keys [(''Python'', 1 :: int)]
                    \<longleftrightarrow> (\<exists>k \<in> ontology_keys sample_ontology. k = c \<and> lower k = k)))"
    by blast+
  from ex have low: "\<forall>c \<in> set [''Python'', ''python'']. lower c = c \<longrightarrow>
                 (c \<in> dict_keys [(''Python'', 1 :: int)]
                    \<longleftrightarrow> (\<exists>k \<in> ontology_keys sample_ontology. k = c \<and> lower k = k))"
    unfolding sample_text using sample_candidates by auto
  have l: "lower ''python'' = ''python''" by code_simp
  have n: "''python'' \<notin> dict_keys [(''Python'', 1 :: int)]" by (simp add: dict_keys_def)
  from low l n have "\<not> (\<exists>k \<in> ontology_keys sample_ontology. k = ''python'' \<and> lower k = k)"
    by simp
  with sample_pattern_resume sample_candidates sub l n show ?thesis by blast
qed

section \<open>Text extraction\<close>

text \<open>
  Claim C9. \<open>extract_text\<close> fails with the unsupported-format error exactly when the
  lowercased suffix of the path is none of \<open>.pdf\<close>, \<open>.docx\<close> and \<open>.txt\<close> (the error then
  names that suffix); and whenever \<open>extract_text\<close> fails, with that error or with an error
  of a reader, \<open>parse_resume\<close> returns the extraction error for the path with that cause,
  whatever the tagger and the ontology are: they are not consulted.
\<close>

theorem unsupported_format_and_extraction_error:
  "((\<exists>s. extract_text fs file_path = Inl (UnsupportedFormat s))
      \<longleftrightarrow> lower (suffix_of fs file_path) \<notin> {''.pdf'', ''.docx'', ''.txt''})
   \<and> (lower (suffix_of fs file_path) \<notin> {''.pdf'', ''.docx'', ''.txt''} \<longrightarrow>
         extract_text fs file_path = Inl (UnsupportedFormat (lower (suffix_of fs file_path))))
   \<and> (\<forall>e. extract_text fs file_path = Inl e \<longrightarrow>
         (\<forall>nlp skill_ontology. parse_resume fs nlp skill_ontology file_path
                                  = Inl (ExtractionError file_path e)))"
proof -
  have a: "(\<exists>s. extract_text fs file_path = Inl (UnsupportedFormat s))
      \<longleftrightarrow> lower (suffix_of fs file_path) \<notin> {''.pdf'', ''.docx'', ''.txt''}"
    by (auto simp: extract_text_def Let_def from_library_def split: sum.splits)
  have b: "lower (suffix_of fs file_path) \<notin> {''.pdf'', ''.docx'', ''.txt''} \<longrightarrow>
         extract_text fs file_path = Inl (UnsupportedFormat (lower (suffix_of fs file_path)))"
    by (simp add: extract_text_def Let_def)
  have c: "\<forall>e. extract_text fs file_path = Inl e \<longrightarrow>
         (\<forall>nlp skill_ontology. parse_resume fs nlp skill_ontology file_path
                                  = Inl (ExtractionError file_path e))"
    by (simp add: parse_resume_def)
  from a b c show ?thesis by blast
qed

text \<open>An executable offered as a resume, and a text file named in capitals that the reader cannot read.\<close>

theorem unsupported_format_and_extraction_error_witness:
  "lower (suffix_of (sample_files ''.EXE'' ''MZ'') ''cv.EXE'') \<notin> {''.pdf'', ''.docx'', ''.txt''}
   \<and> extract_text (sample_files ''.EXE'' ''MZ'') ''cv.EXE'' = Inl (UnsupportedFormat ''.exe'')
   \<and> parse_resume (sample_files ''.EXE'' ''MZ'') sample_parse sample_ontology ''cv.EXE''
       = Inl (ExtractionError ''cv.EXE'' (UnsupportedFormat ''.exe''))
   \<and> lower (suffix_of (sample_files ''.PDF'' ''MZ'') ''cv.PDF'') \<in> {''.pdf'', ''.docx'', ''.txt''}
   \<and> extract_text (sample_files ''.PDF'' ''MZ'') ''cv.PDF'' = Inl (LibraryError ''EOF marker not found'')
   \<and> parse_resume (sample_files ''.PDF'' ''MZ'') sample_parse sample_ontology ''cv.PDF''
       = Inl (ExtractionError ''cv.PDF'' (LibraryError ''EOF marker not found''))"
proof -
  have s1: "lower (suffix_of (sample_files ''.EXE'' ''MZ'') ''cv.EXE'') = ''.exe''" by code_simp
  have s2: "lower (suffix_of (sample_files ''.PDF'' ''MZ'') ''cv.PDF'') = ''.pdf''" by code_simp
  have n1: "lower (suffix_of (sample_files ''.EXE'' ''MZ'') ''cv.EXE'') \<notin> {''.pdf'', ''.docx'', ''.txt''}"
    unfolding s1 by simp
  have n2: "lower (suffix_of (sample_files ''.PDF'' ''MZ'') ''cv.PDF'') \<in> {''.pdf'', ''.docx'', ''.txt''}"
    unfolding s2 by simp
  from unsupported_format_and_extraction_error[of "sample_files ''.EXE'' ''MZ''" "''cv.EXE''"] n1
  have e1: "extract_text (sample_files ''.EXE'' ''MZ'') ''cv.EXE'' = Inl (UnsupportedFormat ''.exe'')"
    unfolding s1 by blast
  with unsupported_format_and_extraction_error[of "sample_files ''.EXE'' ''MZ''" "''cv.EXE''"]
  have p1: "parse_resume (sample_files ''.EXE'' ''MZ'') sample_parse sample_ontology ''cv.EXE''
       = Inl (ExtractionError ''cv.EXE'' (UnsupportedFormat ''.exe''))"
    by blast
  have e2: "extract_text (sample_files ''.PDF'' ''MZ'') ''cv.PDF'' = Inl (LibraryError ''EOF marker not found'')"
    by code_simp
  with unsupported_format_and_extraction_error[of "sample_files ''.PDF'' ''MZ''" "''cv.PDF''"]
  have p2: "parse_resume (sample_files ''.PDF'' ''MZ'') sample_parse sample_ontology ''cv.PDF''
       = Inl (ExtractionError ''cv.PDF'' (LibraryError ''EOF marker not found''))"
    by blast
  from n1 e1 p1 n2 e2 p2 show ?thesis by blast
qed

section \<open>The empty text\<close>

lemma scan_names_empty_text:
  "[] \<notin> set names \<Longrightarrow>
   foldl (\<lambda>acc2 skill. if str_in (lower skill) (lower []) then set_add skill acc2 else acc2) acc names = acc"
  by (induction names arbitrary: acc) (auto simp: lower_def)

lemma scan_categories_empty_text:
  "\<forall>(category, skills_data) \<in> set cats. [] \<notin> dict_keys skills_data \<Longrightarrow>
   foldl (\<lambda>acc (category, skills_data).
            foldl (\<lambda>acc2 skill. if str_in (lower skill) (lower []) then set_add skill acc2 else acc2)
                  acc (map fst skills_data))
         acc cats = acc"
proof (induction cats arbitrary: acc)
  case Nil
  then show ?case by simp
next
  case (Cons c cats)
  obtain category skills_data where c: "c = (category, skills_data)" by (cases c)
  from Cons.prems c have "[] \<notin> set (map fst skills_data)" by (simp add: dict_keys_def)
  from scan_names_empty_text[OF this] Cons show ?case by (simp add: c)
qed

lemma ontology_scan_empty_text:
  "[] \<notin> ontology_keys skill_ontology \<Longrightarrow> ontology_scan skill_ontology [] [] = []"
  unfolding ontology_scan_def
  by (rule scan_categories_empty_text) (auto simp: ontology_keys_def)

text \<open>
  Claim C8, amended. For every ontology none of whose skill keys is the empty string, and
  a tagger that finds no tokens in the empty text, extracting skills from the empty
  document text gives no candidate and the empty map, and raises no error.
\<close>

theorem empty_text_gives_empty_map:
  assumes "extract_text fs file_path = Inr []"
    and "nlp [] = Inr []"
    and "[] \<notin> ontology_keys skill_ontology"
  shows "extract_skills_with_nlp nlp skill_ontology [] = Inr []
     \<and> parse_resume fs nlp skill_ontology file_path = Inr []"
proof -
  have c: "extract_skills_with_nlp nlp skill_ontology [] = Inr []"
    using assms(2) ontology_scan_empty_text[OF assms(3)]
    by (simp add: extract_skills_with_nlp_def lower_def from_library_def pattern_scan_def)
  with assms(1) show ?thesis by (simp add: parse_resume_def)
qed

text \<open>An empty text file and the sample ontology.\<close>

theorem empty_text_gives_empty_map_witness:
  "extract_text (sample_files ''.txt'' []) ''cv.txt'' = Inr []
   \<and> no_tokens [] = Inr []
   \<and> [] \<notin> ontology_keys sample_ontology
   \<and> extract_skills_with_nlp no_tokens sample_ontology [] = Inr []
   \<and> parse_resume (sample_files ''.txt'' []) no_tokens sample_ontology ''cv.txt'' = Inr []"
proof -
  have t: "extract_text (sample_files ''.txt'' []) ''cv.txt'' = Inr []" by code_simp
  have n: "no_tokens [] = Inr []" by (simp add: no_tokens_def)
  have k: "[] \<notin> ontology_keys sample_ontology"
    by (auto simp: ontology_keys_def ontology_skills_def sample_ontology_def dict_keys_def)
  from empty_text_gives_empty_map[of "sample_files ''.txt'' []" "''cv.txt''" no_tokens sample_ontology, OF t n k]
    t n k show ?thesis by blast
qed

text \<open>
  Claim C8 as stated, for every ontology, fails for an ontology with the empty string as
  a skill key: the empty string occurs in the empty text, so the map returned for an
  empty text file has that key, at level 1.
\<close>

theorem empty_text_counterexample:
  "extract_text (sample_files ''.txt'' []) ''cv.txt'' = Inr []
   \<and> no_tokens [] = Inr []
   \<and> parse_resume (sample_files ''.txt'' []) no_tokens blank_ontology ''cv.txt'' = Inr [([], 1)]"
  by code_simp

end
